theory Spec2Isabelle
  imports Complex_Main
begin

section \<open>Python values and the built-in conversions the exporter applies\<close>

text \<open>
  The exporter (\<^verbatim>\<open>monitoring/metrics-exporter/exporter.py\<close>) reads rows from
  psycopg2's \<^verbatim>\<open>RealDictCursor\<close>: each row is a dictionary from column names to
  Python values. A cell is \<^verbatim>\<open>None\<close> (SQL NULL), an \<^verbatim>\<open>int\<close>, a number with a
  fractional part (a \<^verbatim>\<open>float\<close> or a \<^verbatim>\<open>Decimal\<close>, represented by the real it
  denotes) or a \<^verbatim>\<open>str\<close>. Rounding to binary64 and the non-finite floats are not
  represented.
\<close>

datatype pyval = PNone | PInt int | PFloat real | PStr string

datatype pyexn = TypeError | ValueError | OverflowError | DatabaseError string

type_synonym row = "string \<rightharpoonup> pyval"

text \<open>\<^verbatim>\<open>row.get(key, dflt)\<close>: the default is returned only when the key is absent; a key
  that is present with the value \<^verbatim>\<open>None\<close> yields \<^verbatim>\<open>None\<close>.\<close>

definition dict_get :: "row \<Rightarrow> string \<Rightarrow> pyval \<Rightarrow> pyval" where
  "dict_get r key dflt = (case r key of None \<Rightarrow> dflt | Some v \<Rightarrow> v)"

text \<open>
  Python's reading of text as a number (\<^verbatim>\<open>float(s)\<close>, \<^verbatim>\<open>int(s)\<close>, \<open>None\<close> where
  they raise \<^verbatim>\<open>ValueError\<close>) and its printing of a float are not part of the
  repository; the model takes them as a parameter.
\<close>

record py_text =
  text_float :: "string \<Rightarrow> real option"
  text_int :: "string \<Rightarrow> int option"
  float_text :: "real \<Rightarrow> string"

fun str_nat :: "nat \<Rightarrow> string" where
  "str_nat n =
     (if n < 10 then [char_of (48 + n)]
      else str_nat (n div 10) @ [char_of (48 + n mod 10)])"

declare str_nat.simps [simp del]

definition str_int :: "int \<Rightarrow> string" where
  "str_int i = (if i < 0 then CHR ''-'' # str_nat (nat (- i)) else str_nat (nat i))"

text \<open>\<^verbatim>\<open>str(v)\<close>, which \<^verbatim>\<open>labels(...)\<close> of prometheus\_client applies to every label
  value it is given.\<close>

definition py_str :: "py_text \<Rightarrow> pyval \<Rightarrow> string" where
  "py_str B v =
     (case v of
        PNone \<Rightarrow> ''None''
      | PInt i \<Rightarrow> str_int i
      | PFloat x \<Rightarrow> float_text B x
      | PStr s \<Rightarrow> s)"

text \<open>\<^verbatim>\<open>float(i)\<close> of an int raises \<^verbatim>\<open>OverflowError\<close> when the int rounds to a value
  beyond the largest binary64 number.\<close>

definition int_float :: "int \<Rightarrow> pyexn + real" where
  "int_float i =
     (if \<bar>i\<bar> < 2 ^ 1024 - 2 ^ 970 then Inr (of_int i) else Inl OverflowError)"

definition py_float :: "py_text \<Rightarrow> pyval \<Rightarrow> pyexn + real" where
  "py_float B v =
     (case v of
        PNone \<Rightarrow> Inl TypeError
      | PInt i \<Rightarrow> int_float i
      | PFloat x \<Rightarrow> Inr x
      | PStr s \<Rightarrow> (case text_float B s of None \<Rightarrow> Inl ValueError | Some x \<Rightarrow> Inr x))"

text \<open>\<^verbatim>\<open>int(v)\<close>: a number with a fractional part is truncated towards zero.\<close>

definition py_int :: "py_text \<Rightarrow> pyval \<Rightarrow> pyexn + int" where
  "py_int B v =
     (case v of
        PNone \<Rightarrow> Inl TypeError
      | PInt i \<Rightarrow> Inr i
      | PFloat x \<Rightarrow> Inr (if 0 \<le> x then \<lfloor>x\<rfloor> else \<lceil>x\<rceil>)
      | PStr s \<Rightarrow> (case text_int B s of None \<Rightarrow> Inl ValueError | Some i \<Rightarrow> Inr i))"

section \<open>The metrics registry, the log and the datastore connections\<close>

text \<open>
  The instruments declared at module level, by kind. A labelled instrument holds one child
  per tuple of label values (in the order the label names are declared); the unlabelled
  gauge \<open>db_connection_status\<close> holds its value under the empty tuple. A histogram child
  is represented by the observations it has received, in order.
\<close>

datatype gauge_id =
    api_rate_limit_remaining
  | api_rate_limit_consumed_percent
  | tickets_processed_hourly
  | tickets_processed_daily
  | automation_rate
  | similarity_score_avg
  | csat_score
  | resolution_time_avg
  | api_cost_per_ticket_usd
  | db_connection_status

datatype counter_id = api_requests_total | tickets_processed_total | api_cost_total_usd

datatype histogram_id =
    api_response_time
  | similarity_score_distribution
  | resolution_time_seconds
  | metrics_collection_duration

text \<open>The eight SQL queries of the collection functions, by the variable that holds
  them; the model does not interpret their text.\<close>

datatype sql_query =
    query_api_rate_limits
  | query_hourly
  | query_daily
  | query_automation_rate
  | query_similarity_scores
  | query_csat_scores
  | query_resolution_time
  | query_per_ticket

text \<open>What the datastore does when one query is sent to it: the environment's choice,
  an input of the model.\<close>

datatype db_reply =
    ConnectFails pyexn
  | CursorFails pyexn
  | ExecuteFails pyexn
  | FetchFails pyexn
  | Rows "row list"

datatype db_event =
    Opened nat
  | Refused
  | Executed nat sql_query "pyval list"
  | Fetched nat
  | Closed nat

datatype log_entry = LogInfo string | LogError string pyexn

record world =
  gauges :: "gauge_id \<Rightarrow> string list \<rightharpoonup> real"
  counters :: "counter_id \<Rightarrow> string list \<rightharpoonup> real"
  histograms :: "histogram_id \<Rightarrow> string list \<rightharpoonup> real list"
  logged :: "log_entry list"
  next_conn :: nat
  open_conns :: "nat set"
  db_trace :: "db_event list"

text \<open>The state once the module is loaded: no labelled child exists yet, the unlabelled
  gauge reads 0.\<close>

definition startup :: world where
  "startup =
     \<lparr> gauges = (\<lambda>g. if g = db_connection_status then [[] \<mapsto> 0] else Map.empty),
       counters = (\<lambda>c. Map.empty),
       histograms = (\<lambda>h. Map.empty),
       logged = [],
       next_conn = 0,
       open_conns = {},
       db_trace = [] \<rparr>"

section \<open>Statements, exceptions and handlers\<close>

text \<open>A Python statement runs in a state and either raises (\<open>Inl\<close>) or completes with
  a value (\<open>Inr\<close>), leaving a new state. The exceptions are those that
  \<^verbatim>\<open>except Exception\<close> catches; an interrupt or an exit of the interpreter is not a
  behaviour of the model.\<close>

type_synonym 'a py = "world \<Rightarrow> (pyexn + 'a) \<times> world"

definition py_return :: "'a \<Rightarrow> 'a py" where
  "py_return x = (\<lambda>w. (Inr x, w))"

definition py_lift :: "pyexn + 'a \<Rightarrow> 'a py" where
  "py_lift r = (\<lambda>w. (r, w))"

definition py_bind :: "'a py \<Rightarrow> ('a \<Rightarrow> 'b py) \<Rightarrow> 'b py" where
  "py_bind m f = (\<lambda>w. case m w of (Inl e, w') \<Rightarrow> (Inl e, w') | (Inr x, w') \<Rightarrow> f x w')"

definition py_then :: "'a py \<Rightarrow> 'b py \<Rightarrow> 'b py" where
  "py_then m n = py_bind m (\<lambda>_. n)"

text \<open>\<^verbatim>\<open>try: m except Exception as e: h e\<close>\<close>

definition py_try_except :: "'a py \<Rightarrow> (pyexn \<Rightarrow> 'a py) \<Rightarrow> 'a py" where
  "py_try_except m h = (\<lambda>w. case m w of (Inl e, w') \<Rightarrow> h e w' | (Inr x, w') \<Rightarrow> (Inr x, w'))"

text \<open>\<^verbatim>\<open>try: m finally: fin\<close>: the final block always runs; the outcome of \<open>m\<close> stands
  unless the final block itself raises.\<close>

definition py_try_finally :: "'a py \<Rightarrow> unit py \<Rightarrow> 'a py" where
  "py_try_finally m fin =
     (\<lambda>w. case m w of
        (r, w') \<Rightarrow> (case fin w' of (Inl e, w'') \<Rightarrow> (Inl e, w'') | (Inr _, w'') \<Rightarrow> (r, w'')))"

text \<open>\<^verbatim>\<open>for x in xs: body x\<close>\<close>

fun for_each :: "'a list \<Rightarrow> ('a \<Rightarrow> unit py) \<Rightarrow> unit py" where
  "for_each [] body = py_return ()"
| "for_each (x # xs) body = py_then (body x) (for_each xs body)"

subsection \<open>Logger and instruments\<close>

definition logger_info :: "string \<Rightarrow> unit py" where
  "logger_info msg = (\<lambda>w. (Inr (), w\<lparr>logged := logged w @ [LogInfo msg]\<rparr>))"

definition logger_error :: "string \<Rightarrow> pyexn \<Rightarrow> unit py" where
  "logger_error msg e = (\<lambda>w. (Inr (), w\<lparr>logged := logged w @ [LogError msg e]\<rparr>))"

text \<open>\<^verbatim>\<open>g.labels(...)\<close> creates the child with value 0 when it does not exist yet.\<close>

definition gauge_labels :: "gauge_id \<Rightarrow> string list \<Rightarrow> unit py" where
  "gauge_labels g ls =
     (\<lambda>w. (Inr (),
        (case gauges w g ls of
           None \<Rightarrow> w\<lparr>gauges := (gauges w)(g := (gauges w g)(ls \<mapsto> 0))\<rparr>
         | Some _ \<Rightarrow> w)))"

text \<open>\<^verbatim>\<open>child.set(x)\<close> for a float \<open>x\<close>: the last write wins.\<close>

definition gauge_set :: "gauge_id \<Rightarrow> string list \<Rightarrow> real \<Rightarrow> unit py" where
  "gauge_set g ls x = (\<lambda>w. (Inr (), w\<lparr>gauges := (gauges w)(g := (gauges w g)(ls \<mapsto> x))\<rparr>))"

text \<open>\<^verbatim>\<open>h.labels(...).observe(x)\<close>\<close>

definition histogram_observe :: "histogram_id \<Rightarrow> string list \<Rightarrow> real \<Rightarrow> unit py" where
  "histogram_observe h ls x =
     (\<lambda>w. (Inr (),
        w\<lparr>histograms := (histograms w)(h := (histograms w h)
             (ls \<mapsto> (case histograms w h ls of None \<Rightarrow> [] | Some xs \<Rightarrow> xs) @ [x]))\<rparr>))"

subsection \<open>psycopg2\<close>

text \<open>\<^verbatim>\<open>psycopg2.connect(**DB_CONFIG)\<close>: a new connection, named by a number never used
  before, or the driver's exception.\<close>

definition psycopg2_connect :: "db_reply \<Rightarrow> nat py" where
  "psycopg2_connect reply =
     (\<lambda>w. case reply of
        ConnectFails e \<Rightarrow> (Inl e, w\<lparr>db_trace := db_trace w @ [Refused]\<rparr>)
      | _ \<Rightarrow>
          (Inr (next_conn w),
           w\<lparr>next_conn := Suc (next_conn w),
             open_conns := insert (next_conn w) (open_conns w),
             db_trace := db_trace w @ [Opened (next_conn w)]\<rparr>))"

text \<open>
  \<^verbatim>\<open>with conn.cursor(cursor_factory=RealDictCursor) as cur:
      cur.execute(query, params); results = cur.fetchall()\<close>
\<close>

definition cursor_execute_fetchall ::
  "db_reply \<Rightarrow> nat \<Rightarrow> sql_query \<Rightarrow> pyval list \<Rightarrow> row list py" where
  "cursor_execute_fetchall reply conn query params =
     (\<lambda>w. case reply of
        CursorFails e \<Rightarrow> (Inl e, w)
      | ExecuteFails e \<Rightarrow> (Inl e, w\<lparr>db_trace := db_trace w @ [Executed conn query params]\<rparr>)
      | FetchFails e \<Rightarrow> (Inl e, w\<lparr>db_trace := db_trace w @ [Executed conn query params]\<rparr>)
      | Rows rs \<Rightarrow>
          (Inr rs, w\<lparr>db_trace := db_trace w @ [Executed conn query params, Fetched conn]\<rparr>)
      | ConnectFails e \<Rightarrow> (Inl e, w))"

text \<open>The last case does not occur: \<open>query_db\<close> below reaches the cursor only on a
  connection that was opened. \<^verbatim>\<open>conn.close()\<close> does not raise.\<close>

definition conn_close :: "nat \<Rightarrow> unit py" where
  "conn_close conn =
     (\<lambda>w. (Inr (), w\<lparr>open_conns := open_conns w - {conn},
                      db_trace := db_trace w @ [Closed conn]\<rparr>))"

section \<open>Database helper functions\<close>

definition get_db_connection :: "db_reply \<Rightarrow> nat option py" where
  "get_db_connection reply =
     py_try_except
       (py_bind (psycopg2_connect reply) (\<lambda>conn.
        py_then (gauge_set db_connection_status [] 1)
                (py_return (Some conn))))
       (\<lambda>e. py_then (logger_error ''Database connection error'' e)
            (py_then (gauge_set db_connection_status [] 0)
                     (py_return None)))"

definition query_db :: "db_reply \<Rightarrow> sql_query \<Rightarrow> pyval list option \<Rightarrow> row list py" where
  "query_db reply query params =
     py_bind (get_db_connection reply) (\<lambda>conn.
       case conn of
         None \<Rightarrow> py_return []
       | Some c \<Rightarrow>
           py_try_finally
             (py_try_except
                (py_bind (cursor_execute_fetchall reply c query
                            (case params of None \<Rightarrow> [] | Some ps \<Rightarrow> ps))
                   (\<lambda>results. py_return results))
                (\<lambda>e. py_then (logger_error ''Query error'' e) (py_return [])))
             (conn_close c))"

section \<open>Metrics collection functions\<close>

text \<open>
  Every collection function has the same frame: it reads the clock (\<open>t0\<close>), logs that it
  starts, runs its body under \<^verbatim>\<open>try\<close>, logs any exception that leaves the body, and in
  the \<^verbatim>\<open>finally\<close> block reads the clock again (\<open>t1\<close>) and records \<open>t1 - t0\<close> in
  \<open>metrics_collection_duration\<close> under its own \<open>metric_type\<close>. The two clock
  readings and the datastore's reply to each query are inputs.
\<close>

definition collection_frame ::
  "string \<Rightarrow> string \<Rightarrow> string \<Rightarrow> real \<Rightarrow> real \<Rightarrow> unit py \<Rightarrow> unit py" where
  "collection_frame start_msg error_msg metric_type t0 t1 body =
     py_then (logger_info start_msg)
       (py_try_finally
          (py_try_except body (\<lambda>e. logger_error error_msg e))
          (histogram_observe metrics_collection_duration [metric_type] (t1 - t0)))"

text \<open>\<^verbatim>\<open>g.labels(...).set(value)\<close> with a float \<open>value\<close>.\<close>

definition labels_set :: "gauge_id \<Rightarrow> string list \<Rightarrow> real \<Rightarrow> unit py" where
  "labels_set g ls x = py_then (gauge_labels g ls) (gauge_set g ls x)"

text \<open>\<^verbatim>\<open>g.labels(...).set(count)\<close> with an int \<open>count\<close>: \<^verbatim>\<open>set\<close> converts it with
  \<^verbatim>\<open>float\<close> after \<^verbatim>\<open>labels\<close> has run.\<close>

definition labels_set_int :: "gauge_id \<Rightarrow> string list \<Rightarrow> int \<Rightarrow> unit py" where
  "labels_set_int g ls i =
     py_then (gauge_labels g ls) (py_bind (py_lift (int_float i)) (gauge_set g ls))"

subsection \<open>Task 12.5: API rate limits\<close>

definition api_rate_limits_row :: "py_text \<Rightarrow> row \<Rightarrow> unit py" where
  "api_rate_limits_row B r =
     (let provider = dict_get r ''provider'' (PStr ''unknown'');
          limit_type = dict_get r ''limit_type'' (PStr ''requests'')
      in py_bind (py_lift (py_float B (dict_get r ''metric_value'' (PInt 0)))) (\<lambda>value.
           labels_set api_rate_limit_remaining [py_str B provider, py_str B limit_type] value))"

definition collect_api_rate_limits_try :: "py_text \<Rightarrow> db_reply \<Rightarrow> unit py" where
  "collect_api_rate_limits_try B reply =
     py_bind (query_db reply query_api_rate_limits None) (\<lambda>results.
     py_then (for_each results (api_rate_limits_row B))
       (logger_info (''Collected '' @ str_nat (length results) @ '' API rate limit metrics'')))"

definition collect_api_rate_limits :: "py_text \<Rightarrow> real \<Rightarrow> real \<Rightarrow> db_reply \<Rightarrow> unit py" where
  "collect_api_rate_limits B t0 t1 reply =
     collection_frame ''Collecting API rate limit metrics...''
       ''Error collecting API rate limits'' ''api_rate_limits'' t0 t1
       (collect_api_rate_limits_try B reply)"

subsection \<open>Task 12.6: tickets processed, hourly and daily\<close>

definition tickets_row :: "py_text \<Rightarrow> gauge_id \<Rightarrow> row \<Rightarrow> unit py" where
  "tickets_row B g r =
     (let category = dict_get r ''category'' (PStr ''uncategorized'')
      in py_bind (py_lift (py_int B (dict_get r ''count'' (PInt 0)))) (\<lambda>count.
           labels_set_int g [py_str B category] count))"

definition collect_tickets_processed_try :: "py_text \<Rightarrow> db_reply \<Rightarrow> db_reply \<Rightarrow> unit py" where
  "collect_tickets_processed_try B reply_hourly reply_daily =
     py_bind (query_db reply_hourly query_hourly None) (\<lambda>results_hourly.
     py_then (for_each results_hourly (tickets_row B tickets_processed_hourly))
    (py_bind (query_db reply_daily query_daily None) (\<lambda>results_daily.
     py_then (for_each results_daily (tickets_row B tickets_processed_daily))
       (logger_info (''Collected tickets metrics: '' @ str_nat (length results_hourly)
          @ '' hourly, '' @ str_nat (length results_daily) @ '' daily'')))))"

definition collect_tickets_processed ::
  "py_text \<Rightarrow> real \<Rightarrow> real \<Rightarrow> db_reply \<Rightarrow> db_reply \<Rightarrow> unit py" where
  "collect_tickets_processed B t0 t1 reply_hourly reply_daily =
     collection_frame ''Collecting tickets processed metrics...''
       ''Error collecting tickets processed'' ''tickets_processed'' t0 t1
       (collect_tickets_processed_try B reply_hourly reply_daily)"

subsection \<open>Task 12.7: automation rate\<close>

definition automation_rate_row :: "py_text \<Rightarrow> row \<Rightarrow> unit py" where
  "automation_rate_row B r =
     (let category = dict_get r ''category'' (PStr ''unknown'');
          subcategory = dict_get r ''subcategory'' (PStr ''all'')
      in py_bind (py_lift (py_float B (dict_get r ''metric_value'' (PInt 0)))) (\<lambda>value.
           labels_set automation_rate [py_str B category, py_str B subcategory] value))"

definition collect_automation_rate_try :: "py_text \<Rightarrow> db_reply \<Rightarrow> unit py" where
  "collect_automation_rate_try B reply =
     py_bind (query_db reply query_automation_rate None) (\<lambda>results.
     py_then (for_each results (automation_rate_row B))
       (logger_info (''Collected '' @ str_nat (length results) @ '' automation rate metrics'')))"

definition collect_automation_rate :: "py_text \<Rightarrow> real \<Rightarrow> real \<Rightarrow> db_reply \<Rightarrow> unit py" where
  "collect_automation_rate B t0 t1 reply =
     collection_frame ''Collecting automation rate metrics...''
       ''Error collecting automation rate'' ''automation_rate'' t0 t1
       (collect_automation_rate_try B reply)"

subsection \<open>Task 12.8: similarity scores\<close>

definition similarity_scores_row :: "py_text \<Rightarrow> row \<Rightarrow> unit py" where
  "similarity_scores_row B r =
     (let category = dict_get r ''category'' (PStr ''unknown'')
      in py_bind (py_lift (py_float B (dict_get r ''avg_score'' (PInt 0)))) (\<lambda>avg_score.
           labels_set similarity_score_avg [py_str B category] avg_score))"

definition collect_similarity_scores_try :: "py_text \<Rightarrow> db_reply \<Rightarrow> unit py" where
  "collect_similarity_scores_try B reply =
     py_bind (query_db reply query_similarity_scores None) (\<lambda>results.
     py_then (for_each results (similarity_scores_row B))
       (logger_info (''Collected '' @ str_nat (length results) @ '' similarity score metrics'')))"

definition collect_similarity_scores :: "py_text \<Rightarrow> real \<Rightarrow> real \<Rightarrow> db_reply \<Rightarrow> unit py" where
  "collect_similarity_scores B t0 t1 reply =
     collection_frame ''Collecting similarity score metrics...''
       ''Error collecting similarity scores'' ''similarity_scores'' t0 t1
       (collect_similarity_scores_try B reply)"

subsection \<open>Tasks 12.9 to 12.11: CSAT, resolution time, API cost per ticket\<close>

text \<open>The three loops differ only in the gauge they write and the column they read the
  average from.\<close>

definition level_row :: "py_text \<Rightarrow> gauge_id \<Rightarrow> string \<Rightarrow> row \<Rightarrow> unit py" where
  "level_row B g avg_column r =
     (let category = dict_get r ''category'' (PStr ''unknown'');
          automation_level = dict_get r ''automation_level'' (PStr ''manual'')
      in py_bind (py_lift (py_float B (dict_get r avg_column (PInt 0)))) (\<lambda>avg.
           labels_set g [py_str B category, py_str B automation_level] avg))"

definition collect_csat_scores_try :: "py_text \<Rightarrow> db_reply \<Rightarrow> unit py" where
  "collect_csat_scores_try B reply =
     py_bind (query_db reply query_csat_scores None) (\<lambda>results.
     py_then (for_each results (level_row B csat_score ''avg_csat''))
       (logger_info (''Collected '' @ str_nat (length results) @ '' CSAT metrics'')))"

definition collect_csat_scores :: "py_text \<Rightarrow> real \<Rightarrow> real \<Rightarrow> db_reply \<Rightarrow> unit py" where
  "collect_csat_scores B t0 t1 reply =
     collection_frame ''Collecting CSAT metrics...''
       ''Error collecting CSAT scores'' ''csat_scores'' t0 t1
       (collect_csat_scores_try B reply)"

definition collect_resolution_time_try :: "py_text \<Rightarrow> db_reply \<Rightarrow> unit py" where
  "collect_resolution_time_try B reply =
     py_bind (query_db reply query_resolution_time None) (\<lambda>results.
     py_then (for_each results (level_row B resolution_time_avg ''avg_resolution_time''))
       (logger_info (''Collected '' @ str_nat (length results) @ '' resolution time metrics'')))"

definition collect_resolution_time :: "py_text \<Rightarrow> real \<Rightarrow> real \<Rightarrow> db_reply \<Rightarrow> unit py" where
  "collect_resolution_time B t0 t1 reply =
     collection_frame ''Collecting resolution time metrics...''
       ''Error collecting resolution time'' ''resolution_time'' t0 t1
       (collect_resolution_time_try B reply)"

definition collect_api_costs_try :: "py_text \<Rightarrow> db_reply \<Rightarrow> unit py" where
  "collect_api_costs_try B reply =
     py_bind (query_db reply query_per_ticket None) (\<lambda>results.
     py_then (for_each results (level_row B api_cost_per_ticket_usd ''avg_cost''))
       (logger_info (''Collected '' @ str_nat (length results) @ '' API cost metrics'')))"

definition collect_api_costs :: "py_text \<Rightarrow> real \<Rightarrow> real \<Rightarrow> db_reply \<Rightarrow> unit py" where
  "collect_api_costs B t0 t1 reply =
     collection_frame ''Collecting API cost metrics...''
       ''Error collecting API costs'' ''api_costs'' t0 t1
       (collect_api_costs_try B reply)"

section \<open>The collection cycle\<close>

datatype step_id =
    api_rate_limits
  | tickets_processed
  | automation_rate_step
  | similarity_scores
  | csat_scores
  | resolution_time
  | api_costs

text \<open>What the environment supplies during one cycle: the two clock readings of each
  collection function and the datastore's reply to each query.\<close>

record cycle_env =
  clock :: "step_id \<Rightarrow> real \<times> real"
  replies :: "sql_query \<Rightarrow> db_reply"

text \<open>\<^verbatim>\<open>collect_all_metrics\<close> calls the seven collection functions in a fixed order. (The
  main loop calls it once per interval, for ever, and logs whatever it raises; the
  properties below hold for a cycle started in any state.)\<close>

definition collect_all_metrics :: "py_text \<Rightarrow> cycle_env \<Rightarrow> unit py" where
  "collect_all_metrics B env =
     py_then (logger_info ''Starting metrics collection cycle...'')
    (py_then (collect_api_rate_limits B
                (fst (clock env api_rate_limits)) (snd (clock env api_rate_limits))
                (replies env query_api_rate_limits))
    (py_then (collect_tickets_processed B
                (fst (clock env tickets_processed)) (snd (clock env tickets_processed))
                (replies env query_hourly) (replies env query_daily))
    (py_then (collect_automation_rate B
                (fst (clock env automation_rate_step)) (snd (clock env automation_rate_step))
                (replies env query_automation_rate))
    (py_then (collect_similarity_scores B
                (fst (clock env similarity_scores)) (snd (clock env similarity_scores))
                (replies env query_similarity_scores))
    (py_then (collect_csat_scores B
                (fst (clock env csat_scores)) (snd (clock env csat_scores))
                (replies env query_csat_scores))
    (py_then (collect_resolution_time B
                (fst (clock env resolution_time)) (snd (clock env resolution_time))
                (replies env query_resolution_time))
    (py_then (collect_api_costs B
                (fst (clock env api_costs)) (snd (clock env api_costs))
                (replies env query_per_ticket))
             (logger_info ''Metrics collection cycle complete''))))))))"

section \<open>Notions used to state the properties\<close>

text \<open>The rows a reply hands to the caller of \<open>query_db\<close>, and whether the connection
  could be opened.\<close>

definition fetched :: "db_reply \<Rightarrow> row list" where
  "fetched reply = (case reply of Rows rs \<Rightarrow> rs | _ \<Rightarrow> [])"

definition connects :: "db_reply \<Rightarrow> bool" where
  "connects reply = (case reply of ConnectFails _ \<Rightarrow> False | _ \<Rightarrow> True)"

text \<open>The call of one collection function within a cycle, with the inputs the
  environment supplies for it.\<close>

definition run_step :: "py_text \<Rightarrow> cycle_env \<Rightarrow> step_id \<Rightarrow> unit py" where
  "run_step B env s =
     (let t0 = fst (clock env s); t1 = snd (clock env s) in
      case s of
        api_rate_limits \<Rightarrow> collect_api_rate_limits B t0 t1 (replies env query_api_rate_limits)
      | tickets_processed \<Rightarrow>
          collect_tickets_processed B t0 t1 (replies env query_hourly) (replies env query_daily)
      | automation_rate_step \<Rightarrow>
          collect_automation_rate B t0 t1 (replies env query_automation_rate)
      | similarity_scores \<Rightarrow>
          collect_similarity_scores B t0 t1 (replies env query_similarity_scores)
      | csat_scores \<Rightarrow> collect_csat_scores B t0 t1 (replies env query_csat_scores)
      | resolution_time \<Rightarrow> collect_resolution_time B t0 t1 (replies env query_resolution_time)
      | api_costs \<Rightarrow> collect_api_costs B t0 t1 (replies env query_per_ticket))"

text \<open>The parts of each collection function, by step: the body of its \<^verbatim>\<open>try\<close>, its
  messages, its \<open>metric_type\<close>, the gauges it reports and the queries it sends.\<close>

definition step_try :: "py_text \<Rightarrow> cycle_env \<Rightarrow> step_id \<Rightarrow> unit py" where
  "step_try B env s =
     (case s of
        api_rate_limits \<Rightarrow> collect_api_rate_limits_try B (replies env query_api_rate_limits)
      | tickets_processed \<Rightarrow>
          collect_tickets_processed_try B (replies env query_hourly) (replies env query_daily)
      | automation_rate_step \<Rightarrow> collect_automation_rate_try B (replies env query_automation_rate)
      | similarity_scores \<Rightarrow> collect_similarity_scores_try B (replies env query_similarity_scores)
      | csat_scores \<Rightarrow> collect_csat_scores_try B (replies env query_csat_scores)
      | resolution_time \<Rightarrow> collect_resolution_time_try B (replies env query_resolution_time)
      | api_costs \<Rightarrow> collect_api_costs_try B (replies env query_per_ticket))"

definition start_msg :: "step_id \<Rightarrow> string" where
  "start_msg s =
     (case s of
        api_rate_limits \<Rightarrow> ''Collecting API rate limit metrics...''
      | tickets_processed \<Rightarrow> ''Collecting tickets processed metrics...''
      | automation_rate_step \<Rightarrow> ''Collecting automation rate metrics...''
      | similarity_scores \<Rightarrow> ''Collecting similarity score metrics...''
      | csat_scores \<Rightarrow> ''Collecting CSAT metrics...''
      | resolution_time \<Rightarrow> ''Collecting resolution time metrics...''
      | api_costs \<Rightarrow> ''Collecting API cost metrics...'')"

definition error_msg :: "step_id \<Rightarrow> string" where
  "error_msg s =
     (case s of
        api_rate_limits \<Rightarrow> ''Error collecting API rate limits''
      | tickets_processed \<Rightarrow> ''Error collecting tickets processed''
      | automation_rate_step \<Rightarrow> ''Error collecting automation rate''
      | similarity_scores \<Rightarrow> ''Error collecting similarity scores''
      | csat_scores \<Rightarrow> ''Error collecting CSAT scores''
      | resolution_time \<Rightarrow> ''Error collecting resolution time''
      | api_costs \<Rightarrow> ''Error collecting API costs'')"

definition metric_type :: "step_id \<Rightarrow> string" where
  "metric_type s =
     (case s of
        api_rate_limits \<Rightarrow> ''api_rate_limits''
      | tickets_processed \<Rightarrow> ''tickets_processed''
      | automation_rate_step \<Rightarrow> ''automation_rate''
      | similarity_scores \<Rightarrow> ''similarity_scores''
      | csat_scores \<Rightarrow> ''csat_scores''
      | resolution_time \<Rightarrow> ''resolution_time''
      | api_costs \<Rightarrow> ''api_costs'')"

definition step_gauges :: "step_id \<Rightarrow> gauge_id list" where
  "step_gauges s =
     (case s of
        api_rate_limits \<Rightarrow> [api_rate_limit_remaining]
      | tickets_processed \<Rightarrow> [tickets_processed_hourly, tickets_processed_daily]
      | automation_rate_step \<Rightarrow> [automation_rate]
      | similarity_scores \<Rightarrow> [similarity_score_avg]
      | csat_scores \<Rightarrow> [csat_score]
      | resolution_time \<Rightarrow> [resolution_time_avg]
      | api_costs \<Rightarrow> [api_cost_per_ticket_usd])"

definition step_queries :: "step_id \<Rightarrow> sql_query list" where
  "step_queries s =
     (case s of
        api_rate_limits \<Rightarrow> [query_api_rate_limits]
      | tickets_processed \<Rightarrow> [query_hourly, query_daily]
      | automation_rate_step \<Rightarrow> [query_automation_rate]
      | similarity_scores \<Rightarrow> [query_similarity_scores]
      | csat_scores \<Rightarrow> [query_csat_scores]
      | resolution_time \<Rightarrow> [query_resolution_time]
      | api_costs \<Rightarrow> [query_per_ticket])"

definition all_steps :: "step_id list" where
  "all_steps = [api_rate_limits, tickets_processed, automation_rate_step, similarity_scores,
     csat_scores, resolution_time, api_costs]"

text \<open>A stand-in for Python's text conversions, used where an example needs concrete
  ones: a run of ASCII digits reads as the number it writes, any other text is rejected.
  The examples apply it to no float.\<close>

definition read_digits :: "string \<Rightarrow> int option" where
  "read_digits s =
     (if s \<noteq> [] \<and> list_all (\<lambda>c. c \<in> set ''0123456789'') s
      then Some (foldl (\<lambda>n c. 10 * n + (of_char c - 48)) 0 s) else None)"

definition digits_text :: py_text where
  "digits_text =
     \<lparr> text_float = (\<lambda>s. map_option of_int (read_digits s)),
       text_int = read_digits,
       float_text = (\<lambda>x. ''?'') \<rparr>"

text \<open>An environment with the given replies in which every collection function takes one
  second.\<close>

definition env_of :: "(sql_query \<Rightarrow> db_reply) \<Rightarrow> cycle_env" where
  "env_of r = \<lparr>clock = (\<lambda>s. (0, 1)), replies = r\<rparr>"

section \<open>Reasoning about statements\<close>

text \<open>\<open>relates R m\<close>: running \<open>m\<close> takes every state to one related to it by \<open>R\<close>,
  whether \<open>m\<close> completes or raises.\<close>

definition relates :: "(world \<Rightarrow> world \<Rightarrow> bool) \<Rightarrow> 'a py \<Rightarrow> bool" where
  "relates R m \<longleftrightarrow> (\<forall>w. R w (snd (m w)))"

text \<open>
  What a statement can do to one child of a gauge: leave it, create it with 0 if it does
  not exist (\<^verbatim>\<open>labels\<close>), or store a value (\<^verbatim>\<open>set\<close>). \<open>same_writes m m'\<close>: the two
  statements have the same outcome and apply the same operations to every child, in
  every state.
\<close>

datatype cell_op = Keep | Ensure | Put real

fun cell_apply :: "cell_op \<Rightarrow> real option \<Rightarrow> real option" where
  "cell_apply Keep v = v"
| "cell_apply Ensure None = Some 0"
| "cell_apply Ensure (Some x) = Some x"
| "cell_apply (Put x) v = Some x"

fun cell_comp :: "cell_op \<Rightarrow> cell_op \<Rightarrow> cell_op" where
  "cell_comp Keep a = a"
| "cell_comp (Put x) a = Put x"
| "cell_comp Ensure Keep = Ensure"
| "cell_comp Ensure Ensure = Ensure"
| "cell_comp Ensure (Put x) = Put x"

definition apply_ops ::
  "(gauge_id \<Rightarrow> string list \<Rightarrow> cell_op) \<Rightarrow> (gauge_id \<Rightarrow> string list \<rightharpoonup> real)
     \<Rightarrow> gauge_id \<Rightarrow> string list \<rightharpoonup> real" where
  "apply_ops ops G = (\<lambda>g ls. cell_apply (ops g ls) (G g ls))"

definition same_writes :: "'a py \<Rightarrow> 'a py \<Rightarrow> bool" where
  "same_writes m m' \<longleftrightarrow>
     (\<exists>r ops. \<forall>w. fst (m w) = r \<and> fst (m' w) = r
        \<and> gauges (snd (m w)) = apply_ops ops (gauges w)
        \<and> gauges (snd (m' w)) = apply_ops ops (gauges w))"

section \<open>Lemmas\<close>

subsection \<open>What the database helpers do, reply by reply\<close>

lemmas py_defs = py_return_def py_lift_def py_bind_def py_then_def py_try_except_def py_try_finally_def
lemmas prim_defs = logger_info_def logger_error_def gauge_labels_def gauge_set_def histogram_observe_def
  psycopg2_connect_def cursor_execute_fetchall_def conn_close_def

lemma get_db_connection_ok:
  "connects reply \<Longrightarrow> get_db_connection reply w =
     (Inr (Some (next_conn w)),
      w\<lparr>next_conn := Suc (next_conn w),
        open_conns := insert (next_conn w) (open_conns w),
        db_trace := db_trace w @ [Opened (next_conn w)],
        gauges := (gauges w)(db_connection_status := (gauges w db_connection_status)([] \<mapsto> 1))\<rparr>)"
  by (cases reply) (simp_all add: connects_def get_db_connection_def py_defs prim_defs)

lemma get_db_connection_fails:
  "get_db_connection (ConnectFails e) w =
     (Inr None,
      w\<lparr>db_trace := db_trace w @ [Refused],
        logged := logged w @ [LogError ''Database connection error'' e],
        gauges := (gauges w)(db_connection_status := (gauges w db_connection_status)([] \<mapsto> 0))\<rparr>)"
  by (simp add: get_db_connection_def py_defs prim_defs)

lemma query_db_ConnectFails:
  "query_db (ConnectFails e) q p w =
     (Inr [],
      w\<lparr>db_trace := db_trace w @ [Refused],
        logged := logged w @ [LogError ''Database connection error'' e],
        gauges := (gauges w)(db_connection_status := (gauges w db_connection_status)([] \<mapsto> 0))\<rparr>)"
  by (simp add: query_db_def py_bind_def py_return_def get_db_connection_fails)

lemma query_db_Rows:
  "query_db (Rows rs) q p w =
     (Inr rs,
      w\<lparr>next_conn := Suc (next_conn w),
        open_conns := open_conns w - {next_conn w},
        db_trace := db_trace w @ [Opened (next_conn w),
           Executed (next_conn w) q (case p of None \<Rightarrow> [] | Some ps \<Rightarrow> ps),
           Fetched (next_conn w), Closed (next_conn w)],
        gauges := (gauges w)(db_connection_status := (gauges w db_connection_status)([] \<mapsto> 1))\<rparr>)"
  by (simp add: query_db_def get_db_connection_ok connects_def py_defs cursor_execute_fetchall_def conn_close_def)

lemma query_db_CursorFails:
  "query_db (CursorFails e) q p w =
     (Inr [],
      w\<lparr>next_conn := Suc (next_conn w),
        open_conns := open_conns w - {next_conn w},
        db_trace := db_trace w @ [Opened (next_conn w), Closed (next_conn w)],
        logged := logged w @ [LogError ''Query error'' e],
        gauges := (gauges w)(db_connection_status := (gauges w db_connection_status)([] \<mapsto> 1))\<rparr>)"
  by (simp add: query_db_def get_db_connection_ok connects_def py_defs cursor_execute_fetchall_def conn_close_def logger_error_def)

lemma query_db_ExecuteFails:
  "query_db (ExecuteFails e) q p w =
     (Inr [],
      w\<lparr>next_conn := Suc (next_conn w),
        open_conns := open_conns w - {next_conn w},
        db_trace := db_trace w @ [Opened (next_conn w),
           Executed (next_conn w) q (case p of None \<Rightarrow> [] | Some ps \<Rightarrow> ps), Closed (next_conn w)],
        logged := logged w @ [LogError ''Query error'' e],
        gauges := (gauges w)(db_connection_status := (gauges w db_connection_status)([] \<mapsto> 1))\<rparr>)"
  by (simp add: query_db_def get_db_connection_ok connects_def py_defs cursor_execute_fetchall_def conn_close_def logger_error_def)

lemma query_db_FetchFails:
  "query_db (FetchFails e) q p w =
     (Inr [],
      w\<lparr>next_conn := Suc (next_conn w),
        open_conns := open_conns w - {next_conn w},
        db_trace := db_trace w @ [Opened (next_conn w),
           Executed (next_conn w) q (case p of None \<Rightarrow> [] | Some ps \<Rightarrow> ps), Closed (next_conn w)],
        logged := logged w @ [LogError ''Query error'' e],
        gauges := (gauges w)(db_connection_status := (gauges w db_connection_status)([] \<mapsto> 1))\<rparr>)"
  by (simp add: query_db_def get_db_connection_ok connects_def py_defs cursor_execute_fetchall_def conn_close_def logger_error_def)

lemmas query_db_cases = query_db_ConnectFails query_db_CursorFails query_db_ExecuteFails
  query_db_FetchFails query_db_Rows

lemma query_db_fst: "fst (query_db reply q p w) = Inr (fetched reply)"
  by (cases reply) (simp_all add: query_db_cases fetched_def)

lemma query_db_gauges:
  "gauges (snd (query_db reply q p w)) =
     (gauges w)(db_connection_status :=
        (gauges w db_connection_status)([] \<mapsto> (if connects reply then 1 else 0)))"
  by (cases reply) (simp_all add: query_db_cases connects_def)

lemma query_db_counters: "counters (snd (query_db reply q p w)) = counters w"
  by (cases reply) (simp_all add: query_db_cases)

lemma query_db_histograms: "histograms (snd (query_db reply q p w)) = histograms w"
  by (cases reply) (simp_all add: query_db_cases)

lemma query_db_open_conns: "open_conns (snd (query_db reply q p w)) \<subseteq> open_conns w"
  by (cases reply) (auto simp add: query_db_cases)


subsection \<open>Relations that every statement of a composition keeps\<close>

lemma relates_return: "reflp R \<Longrightarrow> relates R (py_return x)"
  by (simp add: relates_def py_return_def reflpD)

lemma relates_lift: "reflp R \<Longrightarrow> relates R (py_lift r)"
  by (simp add: relates_def py_lift_def reflpD)

lemma relates_bind:
  assumes "transp R" and "relates R m" and "\<And>x. relates R (f x)"
  shows "relates R (py_bind m f)"
  unfolding relates_def
proof
  fix w
  obtain r w' where mw: "m w = (r, w')" by (cases "m w")
  have 1: "R w w'" using assms(2) mw by (auto simp: relates_def dest: spec[of _ w])
  show "R w (snd (py_bind m f w))"
  proof (cases r)
    case (Inl e)
    then show ?thesis using mw 1 by (simp add: py_bind_def)
  next
    case (Inr x)
    have "R w' (snd (f x w'))" using assms(3)[of x] by (simp add: relates_def)
    with 1 have "R w (snd (f x w'))" using assms(1) by (blast dest: transpD)
    then show ?thesis using mw Inr by (simp add: py_bind_def)
  qed
qed

lemma relates_then:
  "transp R \<Longrightarrow> relates R m \<Longrightarrow> relates R n \<Longrightarrow> relates R (py_then m n)"
  by (simp add: py_then_def relates_bind)

lemma relates_try_except:
  assumes "transp R" and "relates R m" and "\<And>e. relates R (h e)"
  shows "relates R (py_try_except m h)"
  unfolding relates_def
proof
  fix w
  obtain r w' where mw: "m w = (r, w')" by (cases "m w")
  have 1: "R w w'" using assms(2) mw by (auto simp: relates_def dest: spec[of _ w])
  show "R w (snd (py_try_except m h w))"
  proof (cases r)
    case (Inr x)
    then show ?thesis using mw 1 by (simp add: py_try_except_def)
  next
    case (Inl e)
    have "R w' (snd (h e w'))" using assms(3)[of e] by (simp add: relates_def)
    with 1 have "R w (snd (h e w'))" using assms(1) by (blast dest: transpD)
    then show ?thesis using mw Inl by (simp add: py_try_except_def)
  qed
qed

lemma relates_try_finally:
  assumes "transp R" and "relates R m" and "relates R fin"
  shows "relates R (py_try_finally m fin)"
  unfolding relates_def
proof
  fix w
  obtain r w' where mw: "m w = (r, w')" by (cases "m w")
  obtain r' w'' where fw: "fin w' = (r', w'')" by (cases "fin w'")
  have 1: "R w w'" using assms(2) mw by (auto simp: relates_def dest: spec[of _ w])
  have 2: "R w' w''" using assms(3) fw by (auto simp: relates_def dest: spec[of _ w'])
  have "R w w''" using 1 2 assms(1) by (blast dest: transpD)
  then show "R w (snd (py_try_finally m fin w))"
    using mw fw by (cases r') (simp_all add: py_try_finally_def)
qed

lemma relates_for_each:
  assumes "reflp R" and "transp R" and "\<And>x. relates R (body x)"
  shows "relates R (for_each xs body)"
  by (induction xs) (simp_all add: relates_return relates_then assms)

lemma relates_frame:
  assumes "reflp R" and "transp R" and "relates R body"
    and "\<And>s. relates R (logger_info s)" and "\<And>s e. relates R (logger_error s e)"
    and "\<And>x. relates R (histogram_observe metrics_collection_duration [mt] x)"
  shows "relates R (collection_frame a b mt t0 t1 body)"
  unfolding collection_frame_def
  by (intro relates_then relates_try_finally relates_try_except assms)


subsection \<open>The frame of a collection function\<close>

lemmas step_defs = collect_api_rate_limits_def collect_tickets_processed_def
  collect_automation_rate_def collect_similarity_scores_def collect_csat_scores_def
  collect_resolution_time_def collect_api_costs_def

lemmas step_try_defs = collect_api_rate_limits_try_def collect_tickets_processed_try_def
  collect_automation_rate_try_def collect_similarity_scores_try_def collect_csat_scores_try_def
  collect_resolution_time_try_def collect_api_costs_try_def

lemmas row_defs = api_rate_limits_row_def tickets_row_def automation_rate_row_def
  similarity_scores_row_def level_row_def

lemma collect_all_metrics_steps:
  "collect_all_metrics B env =
     py_then (logger_info ''Starting metrics collection cycle...'')
    (py_then (run_step B env api_rate_limits)
    (py_then (run_step B env tickets_processed)
    (py_then (run_step B env automation_rate_step)
    (py_then (run_step B env similarity_scores)
    (py_then (run_step B env csat_scores)
    (py_then (run_step B env resolution_time)
    (py_then (run_step B env api_costs)
             (logger_info ''Metrics collection cycle complete''))))))))"
  by (simp add: collect_all_metrics_def run_step_def)

lemma run_step_frame:
  "run_step B env s =
     collection_frame (start_msg s) (error_msg s) (metric_type s)
       (fst (clock env s)) (snd (clock env s)) (step_try B env s)"
  by (cases s)
     (simp_all add: run_step_def step_try_def start_msg_def error_msg_def metric_type_def
        step_defs Let_def)

lemma collection_frame_run:
  "collection_frame a b mt t0 t1 body w =
     (let w0 = w\<lparr>logged := logged w @ [LogInfo a]\<rparr>;
          w1 = (case body w0 of
                  (Inl e, w') \<Rightarrow> w'\<lparr>logged := logged w' @ [LogError b e]\<rparr>
                | (Inr u, w') \<Rightarrow> w')
      in (Inr (), snd (histogram_observe metrics_collection_duration [mt] (t1 - t0) w1)))"
  by (simp add: collection_frame_def py_defs logger_info_def logger_error_def
      histogram_observe_def Let_def split: prod.splits sum.splits)

lemma collection_frame_fst: "fst (collection_frame a b mt t0 t1 body w) = Inr ()"
  by (simp add: collection_frame_run Let_def)

lemma run_step_fst: "fst (run_step B env s w) = Inr ()"
  by (simp add: run_step_frame collection_frame_fst)

lemma relates_labels_set:
  "transp R \<Longrightarrow> relates R (gauge_labels g ls) \<Longrightarrow> relates R (gauge_set g ls x)
     \<Longrightarrow> relates R (labels_set g ls x)"
  by (simp add: labels_set_def relates_then)

lemma relates_labels_set_int:
  "reflp R \<Longrightarrow> transp R \<Longrightarrow> relates R (gauge_labels g ls) \<Longrightarrow> (\<And>x. relates R (gauge_set g ls x))
     \<Longrightarrow> relates R (labels_set_int g ls i)"
  by (simp add: labels_set_int_def relates_then relates_bind relates_lift)

lemma step_try_relates:
  assumes R: "reflp R" "transp R"
    and info: "\<And>m. relates R (logger_info m)"
    and query: "\<And>reply q. relates R (query_db reply q None)"
    and labels: "\<And>g ls. g \<in> set (step_gauges s) \<Longrightarrow> relates R (gauge_labels g ls)"
    and sets: "\<And>g ls x. g \<in> set (step_gauges s) \<Longrightarrow> relates R (gauge_set g ls x)"
  shows "relates R (step_try B env s)"
proof -
  have ls: "relates R (labels_set g ls x)" if "g \<in> set (step_gauges s)" for g ls x
    using that by (intro relates_labels_set R labels sets)
  have lsi: "relates R (labels_set_int g ls i)" if "g \<in> set (step_gauges s)" for g ls i
    using that by (intro relates_labels_set_int R labels sets)
  show ?thesis
  proof (cases s)
    case api_rate_limits
    then show ?thesis
      unfolding step_try_def step_try_defs row_defs Let_def
      by (auto intro!: relates_bind relates_then relates_for_each relates_lift R info query ls
          simp: step_gauges_def)
  next
    case tickets_processed
    then show ?thesis
      unfolding step_try_def step_try_defs row_defs Let_def
      by (auto intro!: relates_bind relates_then relates_for_each relates_lift R info query lsi
          simp: step_gauges_def)
  next
    case automation_rate_step
    then show ?thesis
      unfolding step_try_def step_try_defs row_defs Let_def
      by (auto intro!: relates_bind relates_then relates_for_each relates_lift R info query ls
          simp: step_gauges_def)
  next
    case similarity_scores
    then show ?thesis
      unfolding step_try_def step_try_defs row_defs Let_def
      by (auto intro!: relates_bind relates_then relates_for_each relates_lift R info query ls
          simp: step_gauges_def)
  next
    case csat_scores
    then show ?thesis
      unfolding step_try_def step_try_defs row_defs Let_def
      by (auto intro!: relates_bind relates_then relates_for_each relates_lift R info query ls
          simp: step_gauges_def)
  next
    case resolution_time
    then show ?thesis
      unfolding step_try_def step_try_defs row_defs Let_def
      by (auto intro!: relates_bind relates_then relates_for_each relates_lift R info query ls
          simp: step_gauges_def)
  next
    case api_costs
    then show ?thesis
      unfolding step_try_def step_try_defs row_defs Let_def
      by (auto intro!: relates_bind relates_then relates_for_each relates_lift R info query ls
          simp: step_gauges_def)
  qed
qed

lemma run_step_relates:
  assumes R: "reflp R" "transp R"
    and info: "\<And>m. relates R (logger_info m)"
    and err: "\<And>m e. relates R (logger_error m e)"
    and obs: "\<And>l x. relates R (histogram_observe metrics_collection_duration l x)"
    and query: "\<And>reply q. relates R (query_db reply q None)"
    and labels: "\<And>g ls. g \<in> set (step_gauges s) \<Longrightarrow> relates R (gauge_labels g ls)"
    and sets: "\<And>g ls x. g \<in> set (step_gauges s) \<Longrightarrow> relates R (gauge_set g ls x)"
  shows "relates R (run_step B env s)"
  unfolding run_step_frame
  by (intro relates_frame step_try_relates assms)


subsection \<open>Writes to gauges that do not depend on the state\<close>

lemma cell_apply_comp: "cell_apply (cell_comp b a) v = cell_apply b (cell_apply a v)"
  by (cases b; cases a; cases v) simp_all

lemma cell_apply_idem: "cell_apply a (cell_apply a v) = cell_apply a v"
  by (cases a; cases v) simp_all

lemma apply_ops_comp:
  "apply_ops b (apply_ops a G) = apply_ops (\<lambda>g ls. cell_comp (b g ls) (a g ls)) G"
  by (simp add: apply_ops_def cell_apply_comp)

lemma apply_ops_idem: "apply_ops a (apply_ops a G) = apply_ops a G"
  by (simp add: apply_ops_def cell_apply_idem)

lemma apply_ops_Keep: "apply_ops (\<lambda>g ls. Keep) G = G"
  by (simp add: apply_ops_def)

lemma same_writesI:
  assumes "\<And>w. fst (m w) = r" "\<And>w. fst (m' w) = r"
    and "\<And>w. gauges (snd (m w)) = apply_ops ops (gauges w)"
    and "\<And>w. gauges (snd (m' w)) = apply_ops ops (gauges w)"
  shows "same_writes m m'"
  unfolding same_writes_def using assms by blast

lemma same_writes_twice:
  assumes "same_writes m m'"
  shows "gauges (snd (m' (snd (m w)))) = gauges (snd (m w))"
proof -
  obtain r ops where
    "\<And>w. gauges (snd (m w)) = apply_ops ops (gauges w)"
    "\<And>w. gauges (snd (m' w)) = apply_ops ops (gauges w)"
    using assms unfolding same_writes_def by blast
  then show ?thesis by (simp add: apply_ops_idem)
qed

lemma same_writes_return: "same_writes (py_return x) (py_return x)"
  by (rule same_writesI[where r = "Inr x" and ops = "\<lambda>g ls. Keep"])
     (simp_all add: py_return_def apply_ops_Keep)

lemma same_writes_lift: "same_writes (py_lift r) (py_lift r)"
  by (rule same_writesI[where r = r and ops = "\<lambda>g ls. Keep"])
     (simp_all add: py_lift_def apply_ops_Keep)

lemma same_writes_logger_info: "same_writes (logger_info s) (logger_info s)"
  by (rule same_writesI[where r = "Inr ()" and ops = "\<lambda>g ls. Keep"])
     (simp_all add: logger_info_def apply_ops_Keep)

lemma same_writes_logger_error: "same_writes (logger_error s e) (logger_error s e)"
  by (rule same_writesI[where r = "Inr ()" and ops = "\<lambda>g ls. Keep"])
     (simp_all add: logger_error_def apply_ops_Keep)

lemma same_writes_observe: "same_writes (histogram_observe h ls x) (histogram_observe h ls x')"
  by (rule same_writesI[where r = "Inr ()" and ops = "\<lambda>g ls. Keep"])
     (simp_all add: histogram_observe_def apply_ops_Keep)

lemma gauge_labels_ops:
  "gauges (snd (gauge_labels g ls w)) =
     apply_ops (\<lambda>g' ls'. if g' = g \<and> ls' = ls then Ensure else Keep) (gauges w)"
  by (cases "gauges w g ls") (auto simp: gauge_labels_def apply_ops_def fun_eq_iff)

lemma same_writes_gauge_labels: "same_writes (gauge_labels g ls) (gauge_labels g ls)"
  by (rule same_writesI[where r = "Inr ()", OF _ _ gauge_labels_ops gauge_labels_ops])
     (simp_all add: gauge_labels_def)

lemma gauge_set_ops:
  "gauges (snd (gauge_set g ls x w)) =
     apply_ops (\<lambda>g' ls'. if g' = g \<and> ls' = ls then Put x else Keep) (gauges w)"
  by (auto simp: gauge_set_def apply_ops_def fun_eq_iff)

lemma same_writes_gauge_set: "same_writes (gauge_set g ls x) (gauge_set g ls x)"
  by (rule same_writesI[where r = "Inr ()", OF _ _ gauge_set_ops gauge_set_ops])
     (simp_all add: gauge_set_def)

lemma query_db_ops:
  "gauges (snd (query_db reply q p w)) =
     apply_ops (\<lambda>g ls. if g = db_connection_status \<and> ls = []
                        then Put (if connects reply then 1 else 0) else Keep) (gauges w)"
  by (auto simp: query_db_gauges apply_ops_def fun_eq_iff)

lemma same_writes_query_db: "same_writes (query_db reply q p) (query_db reply q p)"
  by (rule same_writesI[where r = "Inr (fetched reply)", OF _ _ query_db_ops query_db_ops])
     (simp_all add: query_db_fst)

lemma same_writes_bind:
  assumes m: "same_writes m m'" and f: "\<And>x. same_writes (f x) (f' x)"
  shows "same_writes (py_bind m f) (py_bind m' f')"
proof -
  obtain r a where ma:
    "\<And>w. fst (m w) = r" "\<And>w. fst (m' w) = r"
    "\<And>w. gauges (snd (m w)) = apply_ops a (gauges w)"
    "\<And>w. gauges (snd (m' w)) = apply_ops a (gauges w)"
    using m unfolding same_writes_def by blast
  have run: "py_bind n k w = (case fst (n w) of Inl e \<Rightarrow> (Inl e, snd (n w)) | Inr x \<Rightarrow> k x (snd (n w)))"
    for n :: "'a py" and k :: "'a \<Rightarrow> 'b py" and w
    by (cases "n w") (simp add: py_bind_def split: sum.splits)
  show ?thesis
  proof (cases r)
    case (Inl e)
    show ?thesis
      by (rule same_writesI[where r = "Inl e" and ops = a]) (simp_all add: run ma Inl)
  next
    case (Inr x)
    obtain r2 b where fb:
      "\<And>w. fst (f x w) = r2" "\<And>w. fst (f' x w) = r2"
      "\<And>w. gauges (snd (f x w)) = apply_ops b (gauges w)"
      "\<And>w. gauges (snd (f' x w)) = apply_ops b (gauges w)"
      using f[of x] unfolding same_writes_def by blast
    show ?thesis
      by (rule same_writesI[where r = r2 and ops = "\<lambda>g ls. cell_comp (b g ls) (a g ls)"])
         (simp_all add: run ma Inr fb apply_ops_comp)
  qed
qed

lemma same_writes_then:
  "same_writes m m' \<Longrightarrow> same_writes n n' \<Longrightarrow> same_writes (py_then m n) (py_then m' n')"
  by (simp add: py_then_def same_writes_bind)

lemma same_writes_try_except:
  assumes m: "same_writes m m'" and h: "\<And>e. same_writes (h e) (h' e)"
  shows "same_writes (py_try_except m h) (py_try_except m' h')"
proof -
  obtain r a where ma:
    "\<And>w. fst (m w) = r" "\<And>w. fst (m' w) = r"
    "\<And>w. gauges (snd (m w)) = apply_ops a (gauges w)"
    "\<And>w. gauges (snd (m' w)) = apply_ops a (gauges w)"
    using m unfolding same_writes_def by blast
  have run: "py_try_except n k w =
      (case fst (n w) of Inl e \<Rightarrow> k e (snd (n w)) | Inr x \<Rightarrow> (Inr x, snd (n w)))"
    for n :: "'a py" and k :: "pyexn \<Rightarrow> 'a py" and w
    by (cases "n w") (simp add: py_try_except_def split: sum.splits)
  show ?thesis
  proof (cases r)
    case (Inr x)
    show ?thesis
      by (rule same_writesI[where r = "Inr x" and ops = a]) (simp_all add: run ma Inr)
  next
    case (Inl e)
    obtain r2 b where hb:
      "\<And>w. fst (h e w) = r2" "\<And>w. fst (h' e w) = r2"
      "\<And>w. gauges (snd (h e w)) = apply_ops b (gauges w)"
      "\<And>w. gauges (snd (h' e w)) = apply_ops b (gauges w)"
      using h[of e] unfolding same_writes_def by blast
    show ?thesis
      by (rule same_writesI[where r = r2 and ops = "\<lambda>g ls. cell_comp (b g ls) (a g ls)"])
         (simp_all add: run ma Inl hb apply_ops_comp)
  qed
qed

lemma same_writes_try_finally:
  assumes m: "same_writes m m'" and fin: "same_writes fin fin'"
  shows "same_writes (py_try_finally m fin) (py_try_finally m' fin')"
proof -
  obtain r a where ma:
    "\<And>w. fst (m w) = r" "\<And>w. fst (m' w) = r"
    "\<And>w. gauges (snd (m w)) = apply_ops a (gauges w)"
    "\<And>w. gauges (snd (m' w)) = apply_ops a (gauges w)"
    using m unfolding same_writes_def by blast
  obtain r2 b where fb:
    "\<And>w. fst (fin w) = r2" "\<And>w. fst (fin' w) = r2"
    "\<And>w. gauges (snd (fin w)) = apply_ops b (gauges w)"
    "\<And>w. gauges (snd (fin' w)) = apply_ops b (gauges w)"
    using fin unfolding same_writes_def by blast
  have run: "py_try_finally n k w =
      (case fst (k (snd (n w))) of Inl e \<Rightarrow> Inl e | Inr u \<Rightarrow> fst (n w), snd (k (snd (n w))))"
    for n :: "'a py" and k :: "unit py" and w
    by (cases "n w"; cases "k (snd (n w))") (simp add: py_try_finally_def split: sum.splits)
  show ?thesis
    by (rule same_writesI[where r = "case r2 of Inl e \<Rightarrow> Inl e | Inr u \<Rightarrow> r"
          and ops = "\<lambda>g ls. cell_comp (b g ls) (a g ls)"])
       (simp_all add: run ma fb apply_ops_comp split: sum.splits)
qed

lemma same_writes_for_each:
  assumes "\<And>x. same_writes (body x) (body' x)"
  shows "same_writes (for_each xs body) (for_each xs body')"
  by (induction xs) (simp_all add: same_writes_return same_writes_then assms)

lemmas same_writes_intros = same_writes_return same_writes_lift same_writes_logger_info
  same_writes_logger_error same_writes_observe same_writes_gauge_labels same_writes_gauge_set
  same_writes_query_db same_writes_bind same_writes_then same_writes_try_except
  same_writes_try_finally same_writes_for_each

lemma same_writes_step_try: "same_writes (step_try B env s) (step_try B env s)"
  by (cases s)
     (simp_all add: step_try_def step_try_defs row_defs labels_set_def labels_set_int_def Let_def
        same_writes_intros)

lemma same_writes_run_step:
  "same_writes (run_step B env s) (run_step B (env\<lparr>clock := c\<rparr>) s)"
proof -
  have "step_try B (env\<lparr>clock := c\<rparr>) s = step_try B env s"
    by (cases s) (simp_all add: step_try_def)
  then show ?thesis
    by (simp add: run_step_frame collection_frame_def same_writes_intros same_writes_step_try)
qed

lemma same_writes_cycle:
  "same_writes (collect_all_metrics B env) (collect_all_metrics B (env\<lparr>clock := c\<rparr>))"
  by (simp add: collect_all_metrics_steps same_writes_then same_writes_logger_info
      same_writes_run_step)

subsection \<open>Running a step on given rows\<close>

lemma int_float_small: "\<bar>i\<bar> < 2 ^ 53 \<Longrightarrow> int_float i = Inr (of_int i)"
proof -
  assume a: "\<bar>i\<bar> < 2 ^ 53"
  have "(2::int) ^ 53 \<le> 2 ^ 1024 - 2 ^ 970" by simp
  with a show ?thesis by (simp add: int_float_def)
qed

lemma py_bind_run:
  "py_bind m f w = (case fst (m w) of Inl e \<Rightarrow> (Inl e, snd (m w)) | Inr x \<Rightarrow> f x (snd (m w)))"
  by (cases "m w") (simp add: py_bind_def split: sum.splits)

lemma collection_frame_gauges:
  "gauges (snd (collection_frame a b mt t0 t1 body w)) =
     gauges (snd (body (w\<lparr>logged := logged w @ [LogInfo a]\<rparr>)))"
  by (cases "body (w\<lparr>logged := logged w @ [LogInfo a]\<rparr>)")
     (simp add: collection_frame_run histogram_observe_def Let_def split: sum.splits)

lemma labels_set_run:
  "labels_set g ls x w = (Inr (), w\<lparr>gauges := (gauges w)(g := (gauges w g)(ls \<mapsto> x))\<rparr>)"
  by (cases "gauges w g ls")
     (simp_all add: labels_set_def py_then_def py_bind_def gauge_labels_def gauge_set_def)

lemma labels_set_int_run:
  "\<bar>i\<bar> < 2 ^ 53 \<Longrightarrow> labels_set_int g ls i w =
     (Inr (), w\<lparr>gauges := (gauges w)(g := (gauges w g)(ls \<mapsto> of_int i))\<rparr>)"
  by (cases "gauges w g ls")
     (simp_all add: labels_set_int_def py_then_def py_bind_def py_lift_def gauge_labels_def
        gauge_set_def int_float_small)

subsection \<open>What a step and a cycle leave unchanged\<close>

lemma cycle_relates:
  assumes "reflp R" "transp R" "\<And>m. relates R (logger_info m)" "\<And>s. relates R (run_step B env s)"
  shows "relates R (collect_all_metrics B env)"
  unfolding collect_all_metrics_steps by (intro relates_then assms)

lemma collect_all_metrics_run:
  "collect_all_metrics B env w =
     (Inr (), snd (logger_info ''Metrics collection cycle complete''
        (foldl (\<lambda>w s. snd (run_step B env s w))
           (snd (logger_info ''Starting metrics collection cycle...'' w)) all_steps)))"
  by (simp add: collect_all_metrics_steps py_then_def py_bind_run run_step_fst all_steps_def
      logger_info_def)

lemma run_step_counters: "counters (snd (run_step B env s w)) = counters w"
proof -
  have "relates (\<lambda>w w'. counters w' = counters w) (run_step B env s)"
    by (rule run_step_relates)
       (auto simp: reflp_def transp_def relates_def prim_defs query_db_counters
          split: option.splits)
  then show ?thesis by (simp add: relates_def)
qed

lemma run_step_open_conns: "open_conns (snd (run_step B env s w)) \<subseteq> open_conns w"
proof -
  have "relates (\<lambda>w w'. open_conns w' \<subseteq> open_conns w) (run_step B env s)"
    by (rule run_step_relates)
       (auto simp: reflp_def transp_def relates_def prim_defs
          split: option.splits dest: subsetD[OF query_db_open_conns])
  then show ?thesis by (simp add: relates_def)
qed

lemma step_try_no_rows:
  assumes "\<forall>q \<in> set (step_queries s). fetched (replies env q) = []"
  shows "gauges (snd (step_try B env s w)) =
     (gauges w)(db_connection_status := (gauges w db_connection_status)
        ([] \<mapsto> (if connects (replies env (last (step_queries s))) then 1 else 0)))"
  using assms
  by (cases s)
     (simp_all add: step_try_def step_try_defs step_queries_def py_bind_run query_db_fst
        py_then_def py_return_def logger_info_def query_db_gauges)

lemma relates_bind_query:
  assumes "transp R" "relates R (query_db reply q p)" "relates R (f (fetched reply))"
  shows "relates R (py_bind (query_db reply q p) f)"
  unfolding relates_def
proof
  fix w
  have 1: "R w (snd (query_db reply q p w))" using assms(2) by (simp add: relates_def)
  have 2: "R (snd (query_db reply q p w)) (snd (f (fetched reply) (snd (query_db reply q p w))))"
    using assms(3) by (simp add: relates_def)
  show "R w (snd (py_bind (query_db reply q p) f w))"
    using transpD[OF assms(1) 1 2] by (simp add: py_bind_run query_db_fst)
qed

lemma collection_frame_histograms:
  assumes "\<And>w. histograms (snd (body w)) = histograms w"
  shows "histograms (snd (collection_frame a b mt t0 t1 body w)) =
     (histograms w)(metrics_collection_duration := (histograms w metrics_collection_duration)
        ([mt] \<mapsto> (case histograms w metrics_collection_duration [mt] of
                      None \<Rightarrow> [] | Some xs \<Rightarrow> xs) @ [t1 - t0]))"
proof -
  have "histograms (snd (body (w\<lparr>logged := logged w @ [LogInfo a]\<rparr>))) = histograms w"
    by (simp add: assms)
  then show ?thesis
    by (cases "body (w\<lparr>logged := logged w @ [LogInfo a]\<rparr>)")
       (auto simp add: collection_frame_run histogram_observe_def Let_def split: sum.splits)
qed

lemma step_try_histograms: "histograms (snd (step_try B env s w)) = histograms w"
proof -
  have "relates (\<lambda>w w'. histograms w' = histograms w) (step_try B env s)"
    by (rule step_try_relates)
       (auto simp: reflp_def transp_def relates_def prim_defs query_db_histograms
          split: option.splits)
  then show ?thesis by (simp add: relates_def)
qed

lemma run_step_histograms:
  "histograms (snd (run_step B env s w)) =
     (histograms w)(metrics_collection_duration := (histograms w metrics_collection_duration)
        ([metric_type s] \<mapsto>
           (case histograms w metrics_collection_duration [metric_type s] of
              None \<Rightarrow> [] | Some xs \<Rightarrow> xs) @ [snd (clock env s) - fst (clock env s)]))"
  unfolding run_step_frame by (rule collection_frame_histograms) (rule step_try_histograms)

lemma run_step_other_gauges:
  assumes "g \<notin> set (step_gauges s)" "g \<noteq> db_connection_status"
  shows "gauges (snd (run_step B env s w)) g = gauges w g"
proof -
  have "relates (\<lambda>w w'. gauges w' g = gauges w g) (run_step B env s)"
    using assms
    by (intro run_step_relates)
       (auto simp: reflp_def transp_def relates_def prim_defs query_db_gauges
          split: option.splits)
  then show ?thesis by (simp add: relates_def)
qed

lemma run_step_dom:
  "dom (gauges w g) \<subseteq> dom (gauges (snd (run_step B env s w)) g)"
proof -
  let ?R = "\<lambda>w w'. \<forall>g. dom (gauges w g) \<subseteq> dom (gauges w' g)"
  have R: "reflp ?R" "transp ?R"
    unfolding reflp_def transp_def by (simp, meson subset_trans)
  have "relates ?R (run_step B env s)"
    by (intro run_step_relates R)
       (auto simp: relates_def prim_defs query_db_gauges split: option.splits if_splits)
  then show ?thesis by (simp add: relates_def)
qed

lemma collection_frame_logged:
  assumes "body (w\<lparr>logged := logged w @ [LogInfo a]\<rparr>) = (Inl e, w')"
  shows "logged (snd (collection_frame a b mt t0 t1 body w)) = logged w' @ [LogError b e]"
  using assms by (simp add: collection_frame_run histogram_observe_def Let_def)

lemma run_step_logged:
  assumes "fst (step_try B env s (w\<lparr>logged := logged w @ [LogInfo (start_msg s)]\<rparr>)) = Inl e"
  shows "logged (snd (run_step B env s w)) =
     logged (snd (step_try B env s (w\<lparr>logged := logged w @ [LogInfo (start_msg s)]\<rparr>)))
       @ [LogError (error_msg s) e]"
  unfolding run_step_frame
  using assms
  by (cases "step_try B env s (w\<lparr>logged := logged w @ [LogInfo (start_msg s)]\<rparr>)")
     (simp add: collection_frame_logged)

lemma single_query_connect_fails:
  assumes "s \<noteq> tickets_processed" "replies env (hd (step_queries s)) = ConnectFails e"
  shows "gauges (snd (run_step B env s w)) =
     (gauges w)(db_connection_status := (gauges w db_connection_status)([] \<mapsto> 0))"
proof -
  have q: "\<forall>q \<in> set (step_queries s). fetched (replies env q) = []"
    using assms by (cases s) (simp_all add: step_queries_def fetched_def)
  have l: "connects (replies env (last (step_queries s))) = False"
    using assms by (cases s) (simp_all add: step_queries_def connects_def)
  show ?thesis
    by (simp add: run_step_frame collection_frame_gauges step_try_no_rows[OF q] l)
qed

lemma relates_tickets_row:
  assumes "reflp R" "transp R" "\<And>ls. relates R (gauge_labels g ls)"
    "\<And>ls x. relates R (gauge_set g ls x)"
  shows "relates R (tickets_row B g r)"
  unfolding tickets_row_def Let_def
  by (intro relates_bind relates_lift relates_labels_set_int assms)

lemma tickets_hourly_connect_fails:
  assumes "replies env query_hourly = ConnectFails e"
  shows "gauges (snd (run_step B env tickets_processed w)) tickets_processed_hourly =
     gauges w tickets_processed_hourly"
proof -
  let ?R = "\<lambda>w w'. gauges w' tickets_processed_hourly = gauges w tickets_processed_hourly"
  have R: "reflp ?R" "transp ?R" by (auto simp: reflp_def transp_def)
  have q: "relates ?R (query_db reply q None)" for reply q
    by (simp add: relates_def query_db_gauges)
  have i: "relates ?R (logger_info m)" for m
    by (simp add: relates_def logger_info_def)
  have d: "relates ?R (tickets_row B tickets_processed_daily r)" for r
    by (rule relates_tickets_row)
       (simp_all add: R relates_def prim_defs split: option.splits)
  have "relates ?R (step_try B env tickets_processed)"
    unfolding step_try_def step_id.case collect_tickets_processed_try_def assms
    apply (rule relates_bind_query[OF R(2) q])
    apply (simp add: fetched_def)
    apply (intro relates_then relates_bind relates_for_each relates_return R q i d)
    done
  then show ?thesis
    by (simp add: run_step_frame collection_frame_gauges relates_def)
qed

lemma tickets_daily_connect_fails:
  assumes "replies env query_daily = ConnectFails e"
  shows "gauges (snd (run_step B env tickets_processed w)) tickets_processed_daily =
     gauges w tickets_processed_daily"
proof -
  let ?R = "\<lambda>w w'. gauges w' tickets_processed_daily = gauges w tickets_processed_daily"
  have R: "reflp ?R" "transp ?R" by (auto simp: reflp_def transp_def)
  have q: "relates ?R (query_db reply q None)" for reply q
    by (simp add: relates_def query_db_gauges)
  have i: "relates ?R (logger_info m)" for m
    by (simp add: relates_def logger_info_def)
  have h: "relates ?R (tickets_row B tickets_processed_hourly r)" for r
    by (rule relates_tickets_row)
       (simp_all add: R relates_def prim_defs split: option.splits)
  have "relates ?R (step_try B env tickets_processed)"
    unfolding step_try_def step_id.case collect_tickets_processed_try_def assms
    apply (rule relates_bind[OF R(2) q])
    apply (rule relates_then[OF R(2)])
     apply (intro relates_for_each R h)
    apply (rule relates_bind_query)
      apply (rule R(2))
     apply (rule q)
    apply (simp add: fetched_def)
    apply (intro relates_then relates_return R i)
    done
  then show ?thesis
    by (simp add: run_step_frame collection_frame_gauges relates_def)
qed

lemma tickets_try_gauges:
  "gauges (snd (collect_tickets_processed_try B rh rd w)) =
     (case fst (for_each (fetched rh) (tickets_row B tickets_processed_hourly)
                  (snd (query_db rh query_hourly None w))) of
        Inl e \<Rightarrow> gauges (snd (for_each (fetched rh) (tickets_row B tickets_processed_hourly)
                  (snd (query_db rh query_hourly None w))))
      | Inr u \<Rightarrow> gauges (snd (for_each (fetched rd) (tickets_row B tickets_processed_daily)
                  (snd (query_db rd query_daily None
                     (snd (for_each (fetched rh) (tickets_row B tickets_processed_hourly)
                        (snd (query_db rh query_hourly None w)))))))))"
  by (simp add: collect_tickets_processed_try_def py_then_def py_bind_run query_db_fst
      logger_info_def split: sum.splits)

lemma tickets_step_gauges:
  "gauges (snd (run_step B env tickets_processed w)) =
     gauges (snd (collect_tickets_processed_try B (replies env query_hourly)
       (replies env query_daily) (w\<lparr>logged := logged w @ [LogInfo (start_msg tickets_processed)]\<rparr>)))"
  by (simp add: run_step_frame collection_frame_gauges step_try_def)

lemma tickets_hourly_refused_daily_reports:
  assumes "replies env query_hourly = ConnectFails e"
  shows "gauges (snd (run_step B env tickets_processed w)) =
     gauges (snd (for_each (fetched (replies env query_daily))
       (tickets_row B tickets_processed_daily)
       (snd (query_db (replies env query_daily) query_daily None
          (snd (query_db (ConnectFails e) query_hourly None
             (w\<lparr>logged := logged w @ [LogInfo (start_msg tickets_processed)]\<rparr>)))))))"
  by (simp add: tickets_step_gauges tickets_try_gauges assms fetched_def py_return_def)

lemma for_each_tickets_keeps_status:
  "gauges (snd (for_each rs (tickets_row B tickets_processed_daily) w)) db_connection_status =
     gauges w db_connection_status"
  "gauges (snd (for_each rs (tickets_row B tickets_processed_hourly) w)) db_connection_status =
     gauges w db_connection_status"
proof -
  let ?R = "\<lambda>w w'. gauges w' db_connection_status = gauges w db_connection_status"
  have R: "reflp ?R" "transp ?R" by (auto simp: reflp_def transp_def)
  have d: "relates ?R (tickets_row B tickets_processed_daily r)" for r
    by (rule relates_tickets_row)
       (simp_all add: R relates_def prim_defs split: option.splits)
  have h: "relates ?R (tickets_row B tickets_processed_hourly r)" for r
    by (rule relates_tickets_row)
       (simp_all add: R relates_def prim_defs split: option.splits)
  have "relates ?R (for_each rs (tickets_row B tickets_processed_daily))"
    by (intro relates_for_each R d)
  then show "gauges (snd (for_each rs (tickets_row B tickets_processed_daily) w)) db_connection_status =
     gauges w db_connection_status"
    by (simp add: relates_def)
  have "relates ?R (for_each rs (tickets_row B tickets_processed_hourly))"
    by (intro relates_for_each R h)
  then show "gauges (snd (for_each rs (tickets_row B tickets_processed_hourly) w)) db_connection_status =
     gauges w db_connection_status"
    by (simp add: relates_def)
qed

lemma tickets_hourly_refused_status:
  assumes "replies env query_hourly = ConnectFails e"
  shows "gauges (snd (run_step B env tickets_processed w)) db_connection_status =
     (gauges w db_connection_status)([] \<mapsto> (if connects (replies env query_daily) then 1 else 0))"
  by (simp add: tickets_hourly_refused_daily_reports[OF assms] for_each_tickets_keeps_status
      query_db_gauges)

lemma tickets_daily_refused_hourly_reports:
  assumes "replies env query_daily = ConnectFails e"
  shows "gauges (snd (run_step B env tickets_processed w)) =
     (case for_each (fetched (replies env query_hourly)) (tickets_row B tickets_processed_hourly)
             (snd (query_db (replies env query_hourly) query_hourly None
                (w\<lparr>logged := logged w @ [LogInfo (start_msg tickets_processed)]\<rparr>))) of
        (Inl e', w') \<Rightarrow> gauges w'
      | (Inr u, w') \<Rightarrow> (gauges w')(db_connection_status := (gauges w' db_connection_status)([] \<mapsto> 0)))"
  by (simp add: tickets_step_gauges tickets_try_gauges assms fetched_def py_return_def
      query_db_gauges connects_def split: prod.splits sum.splits)

lemma collection_frame_last_logged:
  assumes "fst (body (w\<lparr>logged := logged w @ [LogInfo a]\<rparr>)) = Inl e"
  shows "last (logged (snd (collection_frame a b mt t0 t1 body w))) = LogError b e"
  using assms
  by (cases "body (w\<lparr>logged := logged w @ [LogInfo a]\<rparr>)") (simp add: collection_frame_logged)

lemmas eval_simps = py_bind_def py_then_def py_return_def py_lift_def query_db_cases
  labels_set_run labels_set_int_run dict_get_def py_float_def py_int_def
  py_str_def logger_info_def Let_def

lemma for_each_raises_at:
  assumes "for_each xs body w = (Inr (), w1)" "body r w1 = (Inl e, w2)"
  shows "for_each (xs @ r # rest) body w = (Inl e, w2)"
  using assms
proof (induction xs arbitrary: w)
  case Nil
  then show ?case by (simp add: py_return_def py_then_def py_bind_def)
next
  case (Cons x xs)
  obtain r' w' where bx: "body x w = (r', w')" by (cases "body x w")
  show ?case
  proof (cases r')
    case (Inl e')
    with bx Cons.prems(1) show ?thesis by (simp add: py_then_def py_bind_def)
  next
    case (Inr u)
    with bx Cons.prems(1) have "for_each xs body w' = (Inr (), w1)"
      by (simp add: py_then_def py_bind_def)
    from Cons.IH[OF this Cons.prems(2)] bx Inr show ?thesis
      by (simp add: py_then_def py_bind_def)
  qed
qed

section \<open>The claims\<close>

subsection \<open>C1: fallback labels\<close>

text \<open>
  C1 at the scenario of the specification. The hourly tickets query returns a row for
  ``plumbing'' with count 12 and a row whose category is \<^verbatim>\<open>None\<close> with count 3. The key
  \<open>category\<close> is present in the second row, so \<^verbatim>\<open>row.get('category', 'uncategorized')\<close>
  yields \<^verbatim>\<open>None\<close> and the child written is the one labelled ``None''; no child
  ``uncategorized'' exists. When the key is absent the fallback label is used.
\<close>

theorem null_category_is_labelled_None:
  "gauges (snd (collect_tickets_processed B t0 t1
      (Rows [[''category'' \<mapsto> PStr ''plumbing'', ''count'' \<mapsto> PInt 12],
             [''category'' \<mapsto> PNone, ''count'' \<mapsto> PInt 3]])
      (Rows []) startup)) tickets_processed_hourly
   = [[''plumbing''] \<mapsto> 12, [''None''] \<mapsto> 3]
   \<and> gauges (snd (collect_tickets_processed B t0 t1
      (Rows [[''category'' \<mapsto> PStr ''plumbing'', ''count'' \<mapsto> PInt 12],
             [''category'' \<mapsto> PNone, ''count'' \<mapsto> PInt 3]])
      (Rows []) startup)) tickets_processed_hourly [''uncategorized''] = None
   \<and> gauges (snd (collect_tickets_processed B t0 t1
      (Rows [[''category'' \<mapsto> PStr ''plumbing'', ''count'' \<mapsto> PInt 12],
             [''count'' \<mapsto> PInt 3]])
      (Rows []) startup)) tickets_processed_hourly
   = [[''plumbing''] \<mapsto> 12, [''uncategorized''] \<mapsto> 3]"
  by (simp add: collect_tickets_processed_def collection_frame_gauges
      collect_tickets_processed_try_def tickets_row_def eval_simps startup_def)

subsection \<open>C2: values that are null\<close>

text \<open>
  C2 at concrete inputs. The query of a step returns a row whose value column
  (\<open>metric_value\<close>, \<open>avg_score\<close>, \<open>avg_csat\<close>, \<open>avg_resolution_time\<close>,
  \<open>avg_cost\<close>) is \<^verbatim>\<open>None\<close>, followed by a well-formed row with value 5. The key is
  present, so \<^verbatim>\<open>row.get('metric_value', 0)\<close> yields \<^verbatim>\<open>None\<close>, as in C1, and
  \<^verbatim>\<open>float(None)\<close> raises \<^verbatim>\<open>TypeError\<close>: the step logs the error, no value, 0 or other,
  is written for the first row, and the second row is never mapped, so the gauge of the
  step stays empty. This holds in the rate-limit, automation-rate, similarity, CSAT,
  resolution-time and API-cost steps alike. When the key is absent the value written is 0
  and the next row is mapped.
\<close>

theorem null_metric_value_aborts_the_step:
  "gauges (snd (collect_api_rate_limits B t0 t1
      (Rows [[''provider'' \<mapsto> PStr ''openai'', ''limit_type'' \<mapsto> PStr ''requests'',
              ''metric_value'' \<mapsto> PNone],
             [''provider'' \<mapsto> PStr ''anthropic'', ''limit_type'' \<mapsto> PStr ''tokens'',
              ''metric_value'' \<mapsto> PFloat 5]])
      startup)) api_rate_limit_remaining = Map.empty
   \<and> last (logged (snd (collect_api_rate_limits B t0 t1
      (Rows [[''provider'' \<mapsto> PStr ''openai'', ''limit_type'' \<mapsto> PStr ''requests'',
              ''metric_value'' \<mapsto> PNone],
             [''provider'' \<mapsto> PStr ''anthropic'', ''limit_type'' \<mapsto> PStr ''tokens'',
              ''metric_value'' \<mapsto> PFloat 5]])
      startup))) = LogError ''Error collecting API rate limits'' TypeError
   \<and> gauges (snd (collect_api_rate_limits B t0 t1
      (Rows [[''provider'' \<mapsto> PStr ''openai'', ''limit_type'' \<mapsto> PStr ''requests''],
             [''provider'' \<mapsto> PStr ''anthropic'', ''limit_type'' \<mapsto> PStr ''tokens'',
              ''metric_value'' \<mapsto> PFloat 5]])
      startup)) api_rate_limit_remaining
     = [[''openai'', ''requests''] \<mapsto> 0, [''anthropic'', ''tokens''] \<mapsto> 5]
   \<and> gauges (snd (collect_automation_rate B t0 t1
      (Rows [[''category'' \<mapsto> PStr ''plumbing'', ''subcategory'' \<mapsto> PStr ''leak'',
              ''metric_value'' \<mapsto> PNone],
             [''category'' \<mapsto> PStr ''noise'', ''subcategory'' \<mapsto> PStr ''party'',
              ''metric_value'' \<mapsto> PFloat 5]])
      startup)) automation_rate = Map.empty
   \<and> last (logged (snd (collect_automation_rate B t0 t1
      (Rows [[''category'' \<mapsto> PStr ''plumbing'', ''subcategory'' \<mapsto> PStr ''leak'',
              ''metric_value'' \<mapsto> PNone],
             [''category'' \<mapsto> PStr ''noise'', ''subcategory'' \<mapsto> PStr ''party'',
              ''metric_value'' \<mapsto> PFloat 5]])
      startup))) = LogError ''Error collecting automation rate'' TypeError
   \<and> gauges (snd (collect_similarity_scores B t0 t1
      (Rows [[''category'' \<mapsto> PStr ''plumbing'', ''avg_score'' \<mapsto> PNone],
             [''category'' \<mapsto> PStr ''noise'', ''avg_score'' \<mapsto> PFloat 5]])
      startup)) similarity_score_avg = Map.empty
   \<and> last (logged (snd (collect_similarity_scores B t0 t1
      (Rows [[''category'' \<mapsto> PStr ''plumbing'', ''avg_score'' \<mapsto> PNone],
             [''category'' \<mapsto> PStr ''noise'', ''avg_score'' \<mapsto> PFloat 5]])
      startup))) = LogError ''Error collecting similarity scores'' TypeError
   \<and> gauges (snd (collect_csat_scores B t0 t1
      (Rows [[''category'' \<mapsto> PStr ''plumbing'', ''automation_level'' \<mapsto> PStr ''auto'',
              ''avg_csat'' \<mapsto> PNone],
             [''category'' \<mapsto> PStr ''noise'', ''automation_level'' \<mapsto> PStr ''auto'',
              ''avg_csat'' \<mapsto> PFloat 5]])
      startup)) csat_score = Map.empty
   \<and> last (logged (snd (collect_csat_scores B t0 t1
      (Rows [[''category'' \<mapsto> PStr ''plumbing'', ''automation_level'' \<mapsto> PStr ''auto'',
              ''avg_csat'' \<mapsto> PNone],
             [''category'' \<mapsto> PStr ''noise'', ''automation_level'' \<mapsto> PStr ''auto'',
              ''avg_csat'' \<mapsto> PFloat 5]])
      startup))) = LogError ''Error collecting CSAT scores'' TypeError
   \<and> gauges (snd (collect_resolution_time B t0 t1
      (Rows [[''category'' \<mapsto> PStr ''plumbing'', ''automation_level'' \<mapsto> PStr ''auto'',
              ''avg_resolution_time'' \<mapsto> PNone],
             [''category'' \<mapsto> PStr ''noise'', ''automation_level'' \<mapsto> PStr ''auto'',
              ''avg_resolution_time'' \<mapsto> PFloat 5]])
      startup)) resolution_time_avg = Map.empty
   \<and> last (logged (snd (collect_resolution_time B t0 t1
      (Rows [[''category'' \<mapsto> PStr ''plumbing'', ''automation_level'' \<mapsto> PStr ''auto'',
              ''avg_resolution_time'' \<mapsto> PNone],
             [''category'' \<mapsto> PStr ''noise'', ''automation_level'' \<mapsto> PStr ''auto'',
              ''avg_resolution_time'' \<mapsto> PFloat 5]])
      startup))) = LogError ''Error collecting resolution time'' TypeError
   \<and> gauges (snd (collect_api_costs B t0 t1
      (Rows [[''category'' \<mapsto> PStr ''plumbing'', ''automation_level'' \<mapsto> PStr ''auto'',
              ''avg_cost'' \<mapsto> PNone],
             [''category'' \<mapsto> PStr ''noise'', ''automation_level'' \<mapsto> PStr ''auto'',
              ''avg_cost'' \<mapsto> PFloat 5]])
      startup)) api_cost_per_ticket_usd = Map.empty
   \<and> last (logged (snd (collect_api_costs B t0 t1
      (Rows [[''category'' \<mapsto> PStr ''plumbing'', ''automation_level'' \<mapsto> PStr ''auto'',
              ''avg_cost'' \<mapsto> PNone],
             [''category'' \<mapsto> PStr ''noise'', ''automation_level'' \<mapsto> PStr ''auto'',
              ''avg_cost'' \<mapsto> PFloat 5]])
      startup))) = LogError ''Error collecting API costs'' TypeError"
proof -
  have raised:
    "fst (collect_api_rate_limits_try B (Rows ([''provider'' \<mapsto> p, ''limit_type'' \<mapsto> l,
        ''metric_value'' \<mapsto> PNone] # rest)) w) = Inl TypeError"
    "fst (collect_automation_rate_try B (Rows ([''category'' \<mapsto> p, ''subcategory'' \<mapsto> l,
        ''metric_value'' \<mapsto> PNone] # rest)) w) = Inl TypeError"
    "fst (collect_similarity_scores_try B (Rows ([''category'' \<mapsto> p,
        ''avg_score'' \<mapsto> PNone] # rest)) w) = Inl TypeError"
    "fst (collect_csat_scores_try B (Rows ([''category'' \<mapsto> p, ''automation_level'' \<mapsto> l,
        ''avg_csat'' \<mapsto> PNone] # rest)) w) = Inl TypeError"
    "fst (collect_resolution_time_try B (Rows ([''category'' \<mapsto> p, ''automation_level'' \<mapsto> l,
        ''avg_resolution_time'' \<mapsto> PNone] # rest)) w) = Inl TypeError"
    "fst (collect_api_costs_try B (Rows ([''category'' \<mapsto> p, ''automation_level'' \<mapsto> l,
        ''avg_cost'' \<mapsto> PNone] # rest)) w) = Inl TypeError"
    for p l rest w
    by (simp_all add: step_try_defs row_defs eval_simps)
  show ?thesis
    apply (intro conjI)
    apply (simp_all add: step_defs collection_frame_last_logged raised)
    apply (simp_all add: collection_frame_gauges step_try_defs row_defs eval_simps
        int_float_small startup_def)
    done
qed

subsection \<open>C3: errors stay inside the step\<close>

text \<open>
  C3, as amended. For every cycle and every step in it, no error leaves the step: a
  connection failure or a query error is caught and logged inside \<open>query_db\<close>, which
  returns no rows, and an error raised while a row is mapped is caught and logged at the
  step boundary. Every step therefore completes, and the cycle runs all seven steps in
  order whatever happens in each. A step, failing or not, changes no Counter, no gauge
  other than its own and \<open>db_connection_status\<close>, and no histogram other than
  \<open>metrics_collection_duration\<close>, where it records its duration; it removes no label
  tuple from any gauge. The values its own gauges received from the rows mapped before
  the error stay written: a loop that raises at a row leaves the state in which that row
  raised, and the gauges after the step are the gauges in which its body ended.
\<close>

theorem step_errors_are_contained:
  "fst (run_step B env s w) = Inr ()
   \<and> collect_all_metrics B env w =
       (Inr (), snd (logger_info ''Metrics collection cycle complete''
          (foldl (\<lambda>w s. snd (run_step B env s w))
             (snd (logger_info ''Starting metrics collection cycle...'' w)) all_steps)))
   \<and> (fst (step_try B env s (w\<lparr>logged := logged w @ [LogInfo (start_msg s)]\<rparr>)) = Inl e \<longrightarrow>
        logged (snd (run_step B env s w)) =
          logged (snd (step_try B env s (w\<lparr>logged := logged w @ [LogInfo (start_msg s)]\<rparr>)))
            @ [LogError (error_msg s) e])
   \<and> fst (query_db reply q p w) = Inr (fetched reply)
   \<and> logged (snd (query_db (ConnectFails e') q p w)) =
        logged w @ [LogError ''Database connection error'' e']
   \<and> logged (snd (query_db (CursorFails e') q p w)) = logged w @ [LogError ''Query error'' e']
   \<and> logged (snd (query_db (ExecuteFails e') q p w)) = logged w @ [LogError ''Query error'' e']
   \<and> logged (snd (query_db (FetchFails e') q p w)) = logged w @ [LogError ''Query error'' e']
   \<and> counters (snd (run_step B env s w)) = counters w
   \<and> (\<forall>g. g \<notin> set (step_gauges s) \<and> g \<noteq> db_connection_status \<longrightarrow>
          gauges (snd (run_step B env s w)) g = gauges w g)
   \<and> (\<forall>g. dom (gauges w g) \<subseteq> dom (gauges (snd (run_step B env s w)) g))
   \<and> gauges (snd (run_step B env s w)) =
        gauges (snd (step_try B env s (w\<lparr>logged := logged w @ [LogInfo (start_msg s)]\<rparr>)))
   \<and> (for_each xs body w = (Inr (), w1) \<and> body r w1 = (Inl e, w2) \<longrightarrow>
        for_each (xs @ r # rest) body w = (Inl e, w2))
   \<and> histograms (snd (run_step B env s w)) =
        (histograms w)(metrics_collection_duration := (histograms w metrics_collection_duration)
          ([metric_type s] \<mapsto>
             (case histograms w metrics_collection_duration [metric_type s] of
                None \<Rightarrow> [] | Some xs \<Rightarrow> xs) @ [snd (clock env s) - fst (clock env s)]))"
proof -
  have gs: "gauges (snd (run_step B env s w)) =
        gauges (snd (step_try B env s (w\<lparr>logged := logged w @ [LogInfo (start_msg s)]\<rparr>)))"
    by (simp add: run_step_frame collection_frame_gauges)
  show ?thesis
    apply (intro conjI allI impI)
                 apply (rule run_step_fst)
                apply (rule collect_all_metrics_run)
               apply (erule run_step_logged)
              apply (rule query_db_fst)
             apply (simp add: query_db_cases)
            apply (simp add: query_db_cases)
           apply (simp add: query_db_cases)
          apply (simp add: query_db_cases)
         apply (rule run_step_counters)
        apply (erule conjE, erule (1) run_step_other_gauges)
       apply (rule run_step_dom)
      apply (rule gs)
     apply (erule conjE, erule (1) for_each_raises_at)
    apply (rule run_step_histograms)
    done
qed

text \<open>Witness: the rate-limit query returns one row whose \<open>metric_value\<close> is
  \<^verbatim>\<open>None\<close>; \<^verbatim>\<open>float\<close> raises \<^verbatim>\<open>TypeError\<close> in the body, the step logs it last, and
  \<open>similarity_score_avg\<close>, a gauge of another step, is untouched. A loop over a row with
  value 40, a row with \<^verbatim>\<open>None\<close> and a third row stops at the second row with the 40
  written.\<close>

theorem step_errors_are_contained_witness:
  "fst (step_try digits_text
      (env_of (\<lambda>q. Rows [[''provider'' \<mapsto> PStr ''openai'', ''limit_type'' \<mapsto> PStr ''requests'',
                          ''metric_value'' \<mapsto> PNone]]))
      api_rate_limits
      (startup\<lparr>logged := logged startup @ [LogInfo (start_msg api_rate_limits)]\<rparr>)) = Inl TypeError
   \<and> last (logged (snd (run_step digits_text
      (env_of (\<lambda>q. Rows [[''provider'' \<mapsto> PStr ''openai'', ''limit_type'' \<mapsto> PStr ''requests'',
                          ''metric_value'' \<mapsto> PNone]]))
      api_rate_limits startup))) = LogError ''Error collecting API rate limits'' TypeError
   \<and> similarity_score_avg \<notin> set (step_gauges api_rate_limits)
   \<and> similarity_score_avg \<noteq> db_connection_status
   \<and> gauges (snd (run_step digits_text
      (env_of (\<lambda>q. Rows [[''provider'' \<mapsto> PStr ''openai'', ''limit_type'' \<mapsto> PStr ''requests'',
                          ''metric_value'' \<mapsto> PNone]]))
      api_rate_limits startup)) similarity_score_avg = Map.empty
   \<and> for_each [[''provider'' \<mapsto> PStr ''openai'', ''limit_type'' \<mapsto> PStr ''requests'',
                ''metric_value'' \<mapsto> PInt 40]]
        (api_rate_limits_row digits_text) startup =
       (Inr (), startup\<lparr>gauges := (gauges startup)(api_rate_limit_remaining :=
          [[''openai'', ''requests''] \<mapsto> 40])\<rparr>)
   \<and> api_rate_limits_row digits_text
        [''provider'' \<mapsto> PStr ''openai'', ''limit_type'' \<mapsto> PStr ''tokens'',
         ''metric_value'' \<mapsto> PNone]
        (startup\<lparr>gauges := (gauges startup)(api_rate_limit_remaining :=
          [[''openai'', ''requests''] \<mapsto> 40])\<rparr>) =
       (Inl TypeError, startup\<lparr>gauges := (gauges startup)(api_rate_limit_remaining :=
          [[''openai'', ''requests''] \<mapsto> 40])\<rparr>)
   \<and> for_each ([[''provider'' \<mapsto> PStr ''openai'', ''limit_type'' \<mapsto> PStr ''requests'',
                 ''metric_value'' \<mapsto> PInt 40]]
          @ [''provider'' \<mapsto> PStr ''openai'', ''limit_type'' \<mapsto> PStr ''tokens'',
             ''metric_value'' \<mapsto> PNone]
          # [[''provider'' \<mapsto> PStr ''anthropic'', ''limit_type'' \<mapsto> PStr ''requests'',
              ''metric_value'' \<mapsto> PInt 7]])
        (api_rate_limits_row digits_text) startup =
       (Inl TypeError, startup\<lparr>gauges := (gauges startup)(api_rate_limit_remaining :=
          [[''openai'', ''requests''] \<mapsto> 40])\<rparr>)"
proof -
  let ?env = "env_of (\<lambda>q. Rows [[''provider'' \<mapsto> PStr ''openai'',
     ''limit_type'' \<mapsto> PStr ''requests'', ''metric_value'' \<mapsto> PNone]])"
  let ?w1 = "startup\<lparr>gauges := (gauges startup)(api_rate_limit_remaining :=
          [[''openai'', ''requests''] \<mapsto> 40])\<rparr>"
  let ?first = "[[''provider'' \<mapsto> PStr ''openai'', ''limit_type'' \<mapsto> PStr ''requests'',
                ''metric_value'' \<mapsto> PInt 40]]"
  let ?null = "[''provider'' \<mapsto> PStr ''openai'', ''limit_type'' \<mapsto> PStr ''tokens'',
         ''metric_value'' \<mapsto> PNone]"
  let ?rest = "[[''provider'' \<mapsto> PStr ''anthropic'', ''limit_type'' \<mapsto> PStr ''requests'',
              ''metric_value'' \<mapsto> PInt 7]]"
  have raised: "fst (step_try digits_text ?env api_rate_limits
      (startup\<lparr>logged := logged startup @ [LogInfo (start_msg api_rate_limits)]\<rparr>)) = Inl TypeError"
    by (simp add: step_try_def env_of_def collect_api_rate_limits_try_def
        api_rate_limits_row_def eval_simps)
  have other: "similarity_score_avg \<notin> set (step_gauges api_rate_limits)"
    by (simp add: step_gauges_def)
  have before: "for_each ?first (api_rate_limits_row digits_text) startup = (Inr (), ?w1)"
    by (simp add: api_rate_limits_row_def eval_simps int_float_small startup_def)
  have bad: "api_rate_limits_row digits_text ?null ?w1 = (Inl TypeError, ?w1)"
    by (simp add: api_rate_limits_row_def eval_simps)
  note step = step_errors_are_contained[where B = digits_text and env = ?env
      and s = api_rate_limits and w = startup and e = TypeError
      and xs = ?first and body = "api_rate_limits_row digits_text" and ?w1.0 = ?w1
      and r = ?null and ?w2.0 = ?w1 and rest = ?rest
      and reply = "Rows []" and q = query_api_rate_limits and p = None and e' = TypeError]
  have loop: "for_each (?first @ ?null # ?rest) (api_rate_limits_row digits_text) startup =
       (Inl TypeError, ?w1)"
    using step before bad by blast
  have "logged (snd (run_step digits_text ?env api_rate_limits startup)) =
      logged (snd (step_try digits_text ?env api_rate_limits
        (startup\<lparr>logged := logged startup @ [LogInfo (start_msg api_rate_limits)]\<rparr>)))
      @ [LogError (error_msg api_rate_limits) TypeError]"
    using step raised by blast
  then have logd: "last (logged (snd (run_step digits_text ?env api_rate_limits startup))) =
      LogError ''Error collecting API rate limits'' TypeError"
    by (simp add: error_msg_def)
  have "gauges (snd (run_step digits_text ?env api_rate_limits startup)) similarity_score_avg =
      gauges startup similarity_score_avg"
    using step other by blast
  then have frame: "gauges (snd (run_step digits_text ?env api_rate_limits startup))
      similarity_score_avg = Map.empty"
    by (simp add: startup_def)
  show ?thesis
    using raised logd other frame before bad loop by simp
qed

text \<open>Counterexample to C3 as stated: a first run of the rate-limit step sets
  \<open>api_rate_limit_remaining\<close> for (openai, requests) to 100. In the next run the query
  returns a row with 40 for the same labels and then a row whose \<open>metric_value\<close> is
  \<^verbatim>\<open>None\<close>: the step raises at the second row and logs the error, and the value set
  by the earlier run has been overwritten with 40.\<close>

theorem failing_step_overwrites_earlier_values:
  "gauges (snd (collect_api_rate_limits digits_text 0 1
      (Rows [[''provider'' \<mapsto> PStr ''openai'', ''limit_type'' \<mapsto> PStr ''requests'',
              ''metric_value'' \<mapsto> PInt 100]]) startup))
     api_rate_limit_remaining [''openai'', ''requests''] = Some 100
   \<and> last (logged (snd (collect_api_rate_limits digits_text 60 61
      (Rows [[''provider'' \<mapsto> PStr ''openai'', ''limit_type'' \<mapsto> PStr ''requests'',
              ''metric_value'' \<mapsto> PInt 40],
             [''provider'' \<mapsto> PStr ''anthropic'', ''limit_type'' \<mapsto> PStr ''requests'',
              ''metric_value'' \<mapsto> PNone]])
      (snd (collect_api_rate_limits digits_text 0 1
        (Rows [[''provider'' \<mapsto> PStr ''openai'', ''limit_type'' \<mapsto> PStr ''requests'',
                ''metric_value'' \<mapsto> PInt 100]]) startup)))))
     = LogError ''Error collecting API rate limits'' TypeError
   \<and> gauges (snd (collect_api_rate_limits digits_text 60 61
      (Rows [[''provider'' \<mapsto> PStr ''openai'', ''limit_type'' \<mapsto> PStr ''requests'',
              ''metric_value'' \<mapsto> PInt 40],
             [''provider'' \<mapsto> PStr ''anthropic'', ''limit_type'' \<mapsto> PStr ''requests'',
              ''metric_value'' \<mapsto> PNone]])
      (snd (collect_api_rate_limits digits_text 0 1
        (Rows [[''provider'' \<mapsto> PStr ''openai'', ''limit_type'' \<mapsto> PStr ''requests'',
                ''metric_value'' \<mapsto> PInt 100]]) startup))))
     api_rate_limit_remaining [''openai'', ''requests''] = Some 40"
proof -
  have g: "gauges (snd (collect_api_rate_limits digits_text t0 t1 (Rows rs) w)) =
      gauges (snd (for_each rs (api_rate_limits_row digits_text)
        (snd (query_db (Rows rs) query_api_rate_limits None
           (w\<lparr>logged := logged w @ [LogInfo ''Collecting API rate limit metrics...'']\<rparr>)))))"
    for t0 t1 rs w
    by (cases "for_each rs (api_rate_limits_row digits_text)
        (snd (query_db (Rows rs) query_api_rate_limits None
           (w\<lparr>logged := logged w @ [LogInfo ''Collecting API rate limit metrics...'']\<rparr>)))")
       (simp add: collect_api_rate_limits_def collection_frame_gauges
          collect_api_rate_limits_try_def py_bind_run query_db_fst fetched_def py_then_def
          logger_info_def split: sum.splits)
  have raised: "fst (collect_api_rate_limits_try digits_text
      (Rows [[''provider'' \<mapsto> PStr ''openai'', ''limit_type'' \<mapsto> PStr ''requests'',
              ''metric_value'' \<mapsto> PInt 40],
             [''provider'' \<mapsto> PStr ''anthropic'', ''limit_type'' \<mapsto> PStr ''requests'',
              ''metric_value'' \<mapsto> PNone]]) w) = Inl TypeError" for w
    by (simp add: collect_api_rate_limits_try_def api_rate_limits_row_def eval_simps
        int_float_small)
  have l: "last (logged (snd (collect_api_rate_limits digits_text t0 t1
      (Rows [[''provider'' \<mapsto> PStr ''openai'', ''limit_type'' \<mapsto> PStr ''requests'',
              ''metric_value'' \<mapsto> PInt 40],
             [''provider'' \<mapsto> PStr ''anthropic'', ''limit_type'' \<mapsto> PStr ''requests'',
              ''metric_value'' \<mapsto> PNone]]) w)))
     = LogError ''Error collecting API rate limits'' TypeError" for t0 t1 w
    by (simp add: collect_api_rate_limits_def collection_frame_last_logged raised)
  show ?thesis
    by (simp add: g l api_rate_limits_row_def eval_simps int_float_small startup_def)
qed

subsection \<open>C4: a query without rows\<close>

text \<open>
  C4, as amended. If the queries of a collection step return no rows, every labelled gauge
  is left exactly as it was: no value is reset, no label tuple is removed or added; in
  particular \<open>similarity_score_avg\<close> keeps its values, or stays empty. Only
  \<open>db_connection_status\<close> is written, by the connection attempt of the step's last
  query: 1 if the connection opened, 0 if not.
\<close>

theorem no_rows_keeps_labelled_gauges:
  assumes "\<forall>q \<in> set (step_queries s). fetched (replies env q) = []"
  shows "(\<forall>g. g \<noteq> db_connection_status \<longrightarrow> gauges (snd (run_step B env s w)) g = gauges w g)
    \<and> gauges (snd (run_step B env s w)) db_connection_status =
        (gauges w db_connection_status)
          ([] \<mapsto> (if connects (replies env (last (step_queries s))) then 1 else 0))"
  by (simp add: run_step_frame collection_frame_gauges step_try_no_rows[OF assms])

text \<open>Witness: the similarity-score step with an empty result, in a state where
  \<open>similarity_score_avg\<close> holds 0.8 for one category and in the state after startup.\<close>

theorem no_rows_keeps_labelled_gauges_witness:
  "fetched (replies \<lparr>clock = (\<lambda>s. (1, 2)), replies = (\<lambda>q. Rows [])\<rparr> query_similarity_scores) = []
   \<and> gauges (snd (run_step digits_text \<lparr>clock = (\<lambda>s. (1, 2)), replies = (\<lambda>q. Rows [])\<rparr>
        similarity_scores
        (startup\<lparr>gauges := (gauges startup)(similarity_score_avg := [[''plumbing''] \<mapsto> 4 / 5])\<rparr>)))
       similarity_score_avg [''plumbing''] = Some (4 / 5)
   \<and> gauges (snd (run_step digits_text \<lparr>clock = (\<lambda>s. (1, 2)), replies = (\<lambda>q. Rows [])\<rparr>
        similarity_scores startup)) similarity_score_avg = Map.empty"
  using no_rows_keeps_labelled_gauges[of similarity_scores
      "\<lparr>clock = (\<lambda>s. (1, 2)), replies = (\<lambda>q. Rows [])\<rparr>" digits_text
      "startup\<lparr>gauges := (gauges startup)(similarity_score_avg := [[''plumbing''] \<mapsto> 4 / 5])\<rparr>"]
    no_rows_keeps_labelled_gauges[of similarity_scores
      "\<lparr>clock = (\<lambda>s. (1, 2)), replies = (\<lambda>q. Rows [])\<rparr>" digits_text startup]
  by (simp add: step_queries_def fetched_def startup_def)

text \<open>Counterexample to C4 as stated: after a step that could not connect,
  \<open>db_connection_status\<close> reads 0; the next run of the step connects, fetches no rows,
  and the gauge reads 1.\<close>

theorem no_rows_changes_db_connection_status:
  "fetched (Rows []) = []
   \<and> gauges (snd (collect_similarity_scores digits_text 0 1 (ConnectFails (DatabaseError ''down''))
        startup)) db_connection_status [] = Some 0
   \<and> gauges (snd (collect_similarity_scores digits_text 60 61 (Rows [])
        (snd (collect_similarity_scores digits_text 0 1 (ConnectFails (DatabaseError ''down''))
           startup)))) db_connection_status [] = Some 1
   \<and> gauges (snd (collect_similarity_scores digits_text 60 61 (Rows [])
        (snd (collect_similarity_scores digits_text 0 1 (ConnectFails (DatabaseError ''down''))
           startup)))) \<noteq>
       gauges (snd (collect_similarity_scores digits_text 0 1
         (ConnectFails (DatabaseError ''down'')) startup))"
  by (simp add: fetched_def collect_similarity_scores_def collection_frame_gauges
      collect_similarity_scores_try_def py_bind_run query_db_fst py_then_def py_return_def
      logger_info_def query_db_gauges connects_def fun_eq_iff)

subsection \<open>C5: a connection that cannot be opened\<close>

text \<open>
  C5, as amended. Whenever opening a datastore connection fails, that attempt sets
  \<open>db_connection_status\<close> to 0 and logs the error, and the query that attempted it returns
  no rows and changes nothing else. A step with a single query therefore ends with
  \<open>db_connection_status\<close> at 0 and every other gauge as it was. In the tickets-processed
  step, which sends two queries, the gauge of the query whose connection failed is
  unchanged, and the other query still reports its rows and its connection attempt sets
  \<open>db_connection_status\<close> in its turn. When the hourly connection is refused, the daily
  query is sent all the same: the gauges after the step are those left by mapping the
  daily rows in the state after the daily query, and \<open>db_connection_status\<close> reads
  what the daily attempt set, 1 if it opened and 0 if not. When the daily connection is
  refused, the gauges after the step are those left by mapping the hourly rows, with
  \<open>db_connection_status\<close> set to 0 by the daily attempt if the hourly loop completed
  (if it raised, the daily query was never sent). No step changes a Counter, and every
  step records its duration in \<open>metrics_collection_duration\<close>, the only histogram it
  touches.
\<close>

theorem failed_connection_sets_status_down:
  "query_db (ConnectFails e) query params w =
     (Inr [],
      w\<lparr>db_trace := db_trace w @ [Refused],
        logged := logged w @ [LogError ''Database connection error'' e],
        gauges := (gauges w)(db_connection_status := (gauges w db_connection_status)([] \<mapsto> 0))\<rparr>)
   \<and> (s \<noteq> tickets_processed \<and> replies env (hd (step_queries s)) = ConnectFails e \<longrightarrow>
        gauges (snd (run_step B env s w)) =
          (gauges w)(db_connection_status := (gauges w db_connection_status)([] \<mapsto> 0)))
   \<and> (replies env query_hourly = ConnectFails e \<longrightarrow>
        gauges (snd (run_step B env tickets_processed w)) tickets_processed_hourly =
          gauges w tickets_processed_hourly)
   \<and> (replies env query_hourly = ConnectFails e \<longrightarrow>
        gauges (snd (run_step B env tickets_processed w)) =
          gauges (snd (for_each (fetched (replies env query_daily))
            (tickets_row B tickets_processed_daily)
            (snd (query_db (replies env query_daily) query_daily None
               (snd (query_db (ConnectFails e) query_hourly None
                  (w\<lparr>logged := logged w @ [LogInfo (start_msg tickets_processed)]\<rparr>))))))))
   \<and> (replies env query_hourly = ConnectFails e \<longrightarrow>
        gauges (snd (run_step B env tickets_processed w)) db_connection_status =
          (gauges w db_connection_status)
            ([] \<mapsto> (if connects (replies env query_daily) then 1 else 0)))
   \<and> (replies env query_daily = ConnectFails e \<longrightarrow>
        gauges (snd (run_step B env tickets_processed w)) tickets_processed_daily =
          gauges w tickets_processed_daily)
   \<and> (replies env query_daily = ConnectFails e \<longrightarrow>
        gauges (snd (run_step B env tickets_processed w)) =
          (case for_each (fetched (replies env query_hourly))
                  (tickets_row B tickets_processed_hourly)
                  (snd (query_db (replies env query_hourly) query_hourly None
                     (w\<lparr>logged := logged w @ [LogInfo (start_msg tickets_processed)]\<rparr>))) of
             (Inl e', w') \<Rightarrow> gauges w'
           | (Inr u, w') \<Rightarrow>
               (gauges w')(db_connection_status := (gauges w' db_connection_status)([] \<mapsto> 0))))
   \<and> counters (snd (run_step B env s w)) = counters w
   \<and> histograms (snd (run_step B env s w)) =
        (histograms w)(metrics_collection_duration := (histograms w metrics_collection_duration)
          ([metric_type s] \<mapsto>
             (case histograms w metrics_collection_duration [metric_type s] of
                None \<Rightarrow> [] | Some xs \<Rightarrow> xs) @ [snd (clock env s) - fst (clock env s)]))"
  apply (intro conjI impI)
          apply (rule query_db_ConnectFails)
         apply (erule conjE, erule (1) single_query_connect_fails)
        apply (erule tickets_hourly_connect_fails)
       apply (erule tickets_hourly_refused_daily_reports)
      apply (erule tickets_hourly_refused_status)
     apply (erule tickets_daily_connect_fails)
    apply (erule tickets_daily_refused_hourly_reports)
   apply (rule run_step_counters)
  apply (rule run_step_histograms)
  done

text \<open>Witness: the datastore refuses every connection; the similarity-score step runs in
  a state where \<open>similarity_score_avg\<close> holds 0.8 for one category, the tickets step in
  the state after startup. Then the tickets step with the hourly connection refused and
  a daily row of 30 for ``plumbing'': the daily gauge reads 30 and the status 1. Last, the
  tickets step with an hourly row of 12 and the daily connection refused: the hourly gauge
  reads 12 and the status 0.\<close>

theorem failed_connection_sets_status_down_witness:
  "similarity_scores \<noteq> tickets_processed
   \<and> replies (env_of (\<lambda>q. ConnectFails (DatabaseError ''down'')))
        (hd (step_queries similarity_scores)) = ConnectFails (DatabaseError ''down'')
   \<and> gauges (snd (run_step digits_text (env_of (\<lambda>q. ConnectFails (DatabaseError ''down'')))
        similarity_scores
        (startup\<lparr>gauges := (gauges startup)(similarity_score_avg := [[''plumbing''] \<mapsto> 4 / 5])\<rparr>)))
      = (\<lambda>g. if g = db_connection_status then [[] \<mapsto> 0]
              else if g = similarity_score_avg then [[''plumbing''] \<mapsto> 4 / 5] else Map.empty)
   \<and> gauges (snd (run_step digits_text (env_of (\<lambda>q. ConnectFails (DatabaseError ''down'')))
        tickets_processed startup)) tickets_processed_hourly = Map.empty
   \<and> gauges (snd (run_step digits_text (env_of (\<lambda>q. ConnectFails (DatabaseError ''down'')))
        tickets_processed startup)) tickets_processed_daily = Map.empty
   \<and> replies (env_of (\<lambda>q. if q = query_hourly then ConnectFails (DatabaseError ''down'')
          else Rows [[''category'' \<mapsto> PStr ''plumbing'', ''count'' \<mapsto> PInt 30]]))
        query_hourly = ConnectFails (DatabaseError ''down'')
   \<and> gauges (snd (run_step digits_text
        (env_of (\<lambda>q. if q = query_hourly then ConnectFails (DatabaseError ''down'')
          else Rows [[''category'' \<mapsto> PStr ''plumbing'', ''count'' \<mapsto> PInt 30]]))
        tickets_processed startup))
      = (\<lambda>g. if g = db_connection_status then [[] \<mapsto> 1]
              else if g = tickets_processed_daily then [[''plumbing''] \<mapsto> 30] else Map.empty)
   \<and> replies (env_of (\<lambda>q. if q = query_daily then ConnectFails (DatabaseError ''down'')
          else Rows [[''category'' \<mapsto> PStr ''plumbing'', ''count'' \<mapsto> PInt 12]]))
        query_daily = ConnectFails (DatabaseError ''down'')
   \<and> gauges (snd (run_step digits_text
        (env_of (\<lambda>q. if q = query_daily then ConnectFails (DatabaseError ''down'')
          else Rows [[''category'' \<mapsto> PStr ''plumbing'', ''count'' \<mapsto> PInt 12]]))
        tickets_processed startup))
      = (\<lambda>g. if g = db_connection_status then [[] \<mapsto> 0]
              else if g = tickets_processed_hourly then [[''plumbing''] \<mapsto> 12] else Map.empty)"
proof -
  let ?down = "DatabaseError ''down''"
  let ?env0 = "env_of (\<lambda>q. ConnectFails ?down)"
  let ?envh = "env_of (\<lambda>q. if q = query_hourly then ConnectFails ?down
          else Rows [[''category'' \<mapsto> PStr ''plumbing'', ''count'' \<mapsto> PInt 30]])"
  let ?envd = "env_of (\<lambda>q. if q = query_daily then ConnectFails ?down
          else Rows [[''category'' \<mapsto> PStr ''plumbing'', ''count'' \<mapsto> PInt 12]])"
  let ?w = "startup\<lparr>gauges := (gauges startup)(similarity_score_avg := [[''plumbing''] \<mapsto> 4 / 5])\<rparr>"
  note a = failed_connection_sets_status_down[where e = ?down and query = query_similarity_scores
      and params = None and w = ?w and s = similarity_scores and env = ?env0 and B = digits_text]
  note b = failed_connection_sets_status_down[where e = ?down and query = query_hourly
      and params = None and w = startup and s = tickets_processed and env = ?env0
      and B = digits_text]
  note h = failed_connection_sets_status_down[where e = ?down and query = query_hourly
      and params = None and w = startup and s = tickets_processed and env = ?envh
      and B = digits_text]
  note d = failed_connection_sets_status_down[where e = ?down and query = query_daily
      and params = None and w = startup and s = tickets_processed and env = ?envd
      and B = digits_text]
  have r0: "replies ?env0 q = ConnectFails ?down" for q by (simp add: env_of_def)
  have rh: "replies ?envh query_hourly = ConnectFails ?down" by (simp add: env_of_def)
  have rd: "replies ?envd query_daily = ConnectFails ?down" by (simp add: env_of_def)
  have ne: "similarity_scores \<noteq> tickets_processed" by simp
  have c1: "gauges (snd (run_step digits_text ?env0 similarity_scores ?w)) =
      (gauges ?w)(db_connection_status := (gauges ?w db_connection_status)([] \<mapsto> 0))"
    using a ne r0 by blast
  have c2: "gauges (snd (run_step digits_text ?env0 tickets_processed startup))
      tickets_processed_hourly = gauges startup tickets_processed_hourly"
    using b r0 by blast
  have c3: "gauges (snd (run_step digits_text ?env0 tickets_processed startup))
      tickets_processed_daily = gauges startup tickets_processed_daily"
    using b r0 by blast
  have c4: "gauges (snd (run_step digits_text ?envh tickets_processed startup)) =
      gauges (snd (for_each (fetched (replies ?envh query_daily))
            (tickets_row digits_text tickets_processed_daily)
            (snd (query_db (replies ?envh query_daily) query_daily None
               (snd (query_db (ConnectFails ?down) query_hourly None
                  (startup\<lparr>logged := logged startup @ [LogInfo (start_msg tickets_processed)]\<rparr>)))))))"
    using h rh by blast
  have c5: "gauges (snd (run_step digits_text ?envd tickets_processed startup)) =
          (case for_each (fetched (replies ?envd query_hourly))
                  (tickets_row digits_text tickets_processed_hourly)
                  (snd (query_db (replies ?envd query_hourly) query_hourly None
                     (startup\<lparr>logged := logged startup @ [LogInfo (start_msg tickets_processed)]\<rparr>))) of
             (Inl e', w') \<Rightarrow> gauges w'
           | (Inr u, w') \<Rightarrow>
               (gauges w')(db_connection_status := (gauges w' db_connection_status)([] \<mapsto> 0)))"
    using d rd by blast
  show ?thesis
    apply (intro conjI)
            apply (rule ne)
           apply (rule r0)
          apply (simp only: c1, simp add: startup_def fun_eq_iff)
         apply (simp only: c2, simp add: startup_def)
        apply (simp only: c3, simp add: startup_def)
       apply (rule rh)
      apply (simp only: c4, simp add: env_of_def fetched_def tickets_row_def eval_simps
        startup_def fun_eq_iff)
     apply (rule rd)
    apply (simp only: c5, simp add: env_of_def fetched_def tickets_row_def eval_simps
        startup_def fun_eq_iff)
    done
qed

text \<open>Counterexample to C5 as stated: in the tickets-processed step the hourly query
  returns one row and the connection for the daily query is refused. The step that
  attempted the failed connection has reported \<open>tickets_processed_hourly\<close> for
  ``plumbing'', an instrument other than \<open>db_connection_status\<close>, which did not keep its
  last-known state.\<close>

theorem failed_connection_step_still_reports:
  "gauges startup tickets_processed_hourly [''plumbing''] = None
   \<and> gauges (snd (collect_tickets_processed digits_text 0 1
        (Rows [[''category'' \<mapsto> PStr ''plumbing'', ''count'' \<mapsto> PInt 12]])
        (ConnectFails (DatabaseError ''down'')) startup))
      tickets_processed_hourly [''plumbing''] = Some 12
   \<and> gauges (snd (collect_tickets_processed digits_text 0 1
        (Rows [[''category'' \<mapsto> PStr ''plumbing'', ''count'' \<mapsto> PInt 12]])
        (ConnectFails (DatabaseError ''down'')) startup))
      db_connection_status [] = Some 0"
  by (simp add: collect_tickets_processed_def collection_frame_gauges
      collect_tickets_processed_try_def tickets_row_def eval_simps startup_def)

subsection \<open>C6: gauges after a repeated cycle\<close>

text \<open>
  C6. Running a full collection cycle twice with identical query results produces the same
  gauge state as running it once: for every gauge and every label tuple, the value after
  the second run equals the value after the first. The second cycle may read any clock
  values \<open>c\<close>; the replies of the datastore are those of the first.
\<close>

theorem gauges_idempotent_cycle:
  "gauges (snd (collect_all_metrics B (env\<lparr>clock := c\<rparr>) (snd (collect_all_metrics B env w))))
     = gauges (snd (collect_all_metrics B env w))"
  by (rule same_writes_twice[OF same_writes_cycle])

subsection \<open>C7: counters\<close>

text \<open>
  C7. No collection step and no full cycle changes a Counter: \<open>api_requests_total\<close>,
  \<open>tickets_processed_total\<close> and \<open>api_cost_total_usd\<close> are, for every label tuple, what
  they were before, whatever the datastore replies.
\<close>

theorem counters_never_incremented:
  "counters (snd (run_step B env s w)) = counters w
   \<and> counters (snd (collect_all_metrics B env w)) = counters w"
proof
  show "counters (snd (run_step B env s w)) = counters w" by (rule run_step_counters)
  have "relates (\<lambda>w w'. counters w' = counters w) (collect_all_metrics B env)"
    by (rule cycle_relates)
       (auto simp: reflp_def transp_def relates_def logger_info_def run_step_counters)
  then show "counters (snd (collect_all_metrics B env w)) = counters w"
    by (simp add: relates_def)
qed

subsection \<open>C8: one connection per query, always closed\<close>

text \<open>
  C8. For every query that is executed, \<open>query_db\<close> opens a connection of its own (the
  next unused number \<open>c\<close>) and closes it before it returns, whether the query succeeds
  or the cursor, the execution or the fetch fails: the trace of the call starts with
  \<open>Opened c\<close> and ends with \<open>Closed c\<close>, with nothing but the query on \<open>c\<close> between
  them, and \<open>c\<close> is not open afterwards. When the connection cannot be opened there is
  nothing to close. A collection step, which maps the rows only after \<open>query_db\<close> has
  returned, leaves no connection open either, whatever happens to its rows; nor does a
  cycle.
\<close>

theorem query_db_opens_and_closes_its_connection:
  "(let w' = snd (query_db reply query params w);
        c = next_conn w;
        ps = (case params of None \<Rightarrow> [] | Some ps \<Rightarrow> ps)
    in db_trace w' = db_trace w @
         (case reply of
            ConnectFails e \<Rightarrow> [Refused]
          | CursorFails e \<Rightarrow> [Opened c, Closed c]
          | ExecuteFails e \<Rightarrow> [Opened c, Executed c query ps, Closed c]
          | FetchFails e \<Rightarrow> [Opened c, Executed c query ps, Closed c]
          | Rows rs \<Rightarrow> [Opened c, Executed c query ps, Fetched c, Closed c])
       \<and> next_conn w' = (case reply of ConnectFails e \<Rightarrow> c | _ \<Rightarrow> Suc c)
       \<and> open_conns w' = (case reply of ConnectFails e \<Rightarrow> open_conns w | _ \<Rightarrow> open_conns w - {c}))
   \<and> open_conns (snd (run_step B env s w)) \<subseteq> open_conns w
   \<and> open_conns (snd (collect_all_metrics B env w)) \<subseteq> open_conns w"
proof -
  have "relates (\<lambda>w w'. open_conns w' \<subseteq> open_conns w) (collect_all_metrics B env)"
    by (rule cycle_relates)
       (auto simp: reflp_def transp_def relates_def logger_info_def
          dest: subsetD[OF run_step_open_conns])
  then have "open_conns (snd (collect_all_metrics B env w)) \<subseteq> open_conns w"
    by (simp add: relates_def)
  then show ?thesis
    by (cases reply) (simp_all add: query_db_cases run_step_open_conns)
qed

subsection \<open>C9: \<open>query_db\<close> always returns a list\<close>

text \<open>
  C9. \<open>query_db\<close> never raises: for every reply of the datastore it returns a list,
  the fetched rows on success and the empty list when the connection cannot be opened,
  when the cursor cannot be created, and when executing or fetching fails.
\<close>

theorem query_db_always_returns_a_list:
  "(\<exists>rows. fst (query_db reply query params w) = Inr rows)
   \<and> fst (query_db (Rows rs) query params w) = Inr rs
   \<and> fst (query_db (ConnectFails e) query params w) = Inr []
   \<and> fst (query_db (CursorFails e) query params w) = Inr []
   \<and> fst (query_db (ExecuteFails e) query params w) = Inr []
   \<and> fst (query_db (FetchFails e) query params w) = Inr []"
  by (simp add: query_db_fst fetched_def)

subsection \<open>C10: the health gauge\<close>

text \<open>
  C10. Every call of \<open>get_db_connection\<close> sets \<open>db_connection_status\<close> and never
  raises. When the connection cannot be opened it returns \<^verbatim>\<open>None\<close> and the gauge reads 0;
  when it can (whatever happens to the cursor, the execution or the fetch afterwards) it
  returns the new connection and the gauge reads 1. So the gauge reads 1 exactly when a
  connection was returned and 0 exactly when \<^verbatim>\<open>None\<close> was returned; no other gauge
  changes. A successful attempt after a failed one sets the gauge back to 1, and a failed
  attempt after a successful one sets it to 0.
\<close>

theorem db_connection_status_reflects_last_attempt:
  "fst (get_db_connection (ConnectFails e) w) = Inr None
   \<and> gauges (snd (get_db_connection (ConnectFails e) w)) db_connection_status [] = Some 0
   \<and> fst (get_db_connection (Rows rs) w) = Inr (Some (next_conn w))
   \<and> gauges (snd (get_db_connection (Rows rs) w)) db_connection_status [] = Some 1
   \<and> fst (get_db_connection (CursorFails e) w) = Inr (Some (next_conn w))
   \<and> gauges (snd (get_db_connection (CursorFails e) w)) db_connection_status [] = Some 1
   \<and> fst (get_db_connection (ExecuteFails e) w) = Inr (Some (next_conn w))
   \<and> gauges (snd (get_db_connection (ExecuteFails e) w)) db_connection_status [] = Some 1
   \<and> fst (get_db_connection (FetchFails e) w) = Inr (Some (next_conn w))
   \<and> gauges (snd (get_db_connection (FetchFails e) w)) db_connection_status [] = Some 1
   \<and> ((\<exists>conn. fst (get_db_connection reply w) = Inr (Some conn)
         \<and> gauges (snd (get_db_connection reply w)) db_connection_status [] = Some 1)
      \<or> (fst (get_db_connection reply w) = Inr None
         \<and> gauges (snd (get_db_connection reply w)) db_connection_status [] = Some 0))
   \<and> (gauges (snd (get_db_connection reply w)) db_connection_status [] = Some 1)
       = (\<exists>conn. fst (get_db_connection reply w) = Inr (Some conn))
   \<and> (gauges (snd (get_db_connection reply w)) db_connection_status [] = Some 0)
       = (fst (get_db_connection reply w) = Inr None)
   \<and> gauges (snd (get_db_connection reply w)) =
        (gauges w)(db_connection_status := (gauges w db_connection_status)
           ([] \<mapsto> (case reply of ConnectFails e \<Rightarrow> 0 | _ \<Rightarrow> 1)))
   \<and> gauges (snd (get_db_connection (Rows rs) (snd (get_db_connection (ConnectFails e) w))))
        db_connection_status [] = Some 1
   \<and> gauges (snd (get_db_connection (ConnectFails e) (snd (get_db_connection (Rows rs) w))))
        db_connection_status [] = Some 0"
  by (cases reply) (simp_all add: get_db_connection_ok get_db_connection_fails connects_def)

end
